theory Spec2Isabelle
  imports Complex_Main
begin

section \<open>Paths and the file system\<close>

text \<open>
  A path is the list of its components. The project root is
  \<^verbatim>\<open>Path(__file__).parent.parent.parent\<close> in \<^verbatim>\<open>src/database/connection.py\<close> and
  \<^verbatim>\<open>Path(__file__).parent.parent\<close> in \<^verbatim>\<open>scripts/check_data_integrity.py\<close>: the same
  directory, which depends on where the repository is checked out. Every definition below
  that uses it takes it as the parameter \<open>project_root\<close>.
\<close>

type_synonym path = "string list"

definition parent :: "path \<Rightarrow> path" where
  "parent p = butlast p"

definition DATA_DIR :: "path \<Rightarrow> path" where
  "DATA_DIR project_root = project_root @ [''data'']"

definition CONVERSATIONS_DIR :: "path \<Rightarrow> path" where
  "CONVERSATIONS_DIR project_root = DATA_DIR project_root @ [''conversations'']"

definition LOGS_DIR :: "path \<Rightarrow> path" where
  "LOGS_DIR project_root = DATA_DIR project_root @ [''logs'']"

definition DB_PATH :: "path \<Rightarrow> path" where
  "DB_PATH project_root = CONVERSATIONS_DIR project_root @ [''conversations.db'']"

subsection \<open>Rows and the database image\<close>

text \<open>
  The columns declared \<^verbatim>\<open>TIMESTAMP\<close> hold whatever value a statement stores in them:
  the text of \<^verbatim>\<open>CURRENT_TIMESTAMP\<close> (\<^verbatim>\<open>YYYY-MM-DD HH:MM:SS\<close>), any other text, a
  number, a blob or \<^verbatim>\<open>NULL\<close>. A value is kept as the column stores it, after the
  column's type affinity has been applied, in one of the engine's storage classes.
\<close>

datatype sqlval = Null | Integer int | Real real | Text string | Blob string

text \<open>
  The order of two texts or blobs: byte by byte, and a proper prefix before the longer
  one (\<^verbatim>\<open>memcmp\<close>, the collation \<^verbatim>\<open>BINARY\<close>).
\<close>

fun bytes_less :: "string \<Rightarrow> string \<Rightarrow> bool" where
  "bytes_less [] [] = False"
| "bytes_less [] (y # ys) = True"
| "bytes_less (x # xs) [] = False"
| "bytes_less (x # xs) (y # ys) =
     ((of_char x :: nat) < of_char y \<or> (x = y \<and> bytes_less xs ys))"

fun storage_class :: "sqlval \<Rightarrow> nat" where
  "storage_class Null = 0"
| "storage_class (Integer _) = 1"
| "storage_class (Real _) = 1"
| "storage_class (Text _) = 2"
| "storage_class (Blob _) = 3"

text \<open>
  The engine's order of values: \<^verbatim>\<open>NULL\<close> first, then the numbers by their value, then
  the texts, then the blobs.
\<close>

fun sql_less :: "sqlval \<Rightarrow> sqlval \<Rightarrow> bool" where
  "sql_less (Integer a) (Integer b) = (a < b)"
| "sql_less (Integer a) (Real b) = (real_of_int a < b)"
| "sql_less (Real a) (Integer b) = (a < real_of_int b)"
| "sql_less (Real a) (Real b) = (a < b)"
| "sql_less (Text a) (Text b) = bytes_less a b"
| "sql_less (Blob a) (Blob b) = bytes_less a b"
| "sql_less a b = (storage_class a < storage_class b)"

text \<open>The SQL comparison \<^verbatim>\<open>a >= b\<close>: unknown (\<open>None\<close>) when either side is \<^verbatim>\<open>NULL\<close>.\<close>

definition sql_ge :: "sqlval \<Rightarrow> sqlval \<Rightarrow> bool option" where
  "sql_ge a b = (if a = Null \<or> b = Null then None else Some (\<not> sql_less a b))"

definition sql_min :: "sqlval \<Rightarrow> sqlval \<Rightarrow> sqlval" where
  "sql_min a b = (if sql_less b a then b else a)"

definition sql_max :: "sqlval \<Rightarrow> sqlval \<Rightarrow> sqlval" where
  "sql_max a b = (if sql_less a b then b else a)"

text \<open>The truth value that Python gives a fetched column value.\<close>

fun truthy :: "sqlval \<Rightarrow> bool" where
  "truthy Null = False"
| "truthy (Integer i) = (i \<noteq> 0)"
| "truthy (Real r) = (r \<noteq> 0)"
| "truthy (Text t) = (t \<noteq> [])"
| "truthy (Blob b) = (b \<noteq> [])"

record conversation =
  conv_id :: int
  session_id :: string
  created_at :: sqlval
  updated_at :: sqlval
  title :: "string option"
  conv_model_name :: string

record message =
  msg_id :: int
  conversation_id :: int
  role :: string
  content :: string
  timestamp :: sqlval
  token_count :: "int option"

record usage =
  usage_id :: int
  usage_model_name :: string
  tokens_used :: int
  response_time :: "real option"
  usage_timestamp :: sqlval

text \<open>
  A database image: the rows of \<^verbatim>\<open>sqlite_master\<close> as triples (type, name, tbl_name),
  the rows of the three tables of the schema, the rows of \<^verbatim>\<open>sqlite_sequence\<close>, and
  the first row that \<^verbatim>\<open>PRAGMA integrity_check\<close> returns for this image.
\<close>

record database =
  sqlite_master :: "(string \<times> string \<times> string) list"
  conversations :: "conversation list"
  messages :: "message list"
  model_usage :: "usage list"
  sqlite_sequence :: "(string \<times> int) list"
  integrity_check :: string

definition empty_db :: database where
  "empty_db = \<lparr>sqlite_master = [], conversations = [], messages = [], model_usage = [],
     sqlite_sequence = [], integrity_check = ''ok''\<rparr>"

text \<open>
  A file is a database image or some other content of a given size in bytes (a log
  file). The file system is an association list from paths to nodes, read with
  \<open>map_of\<close>, so that a directory can be listed.
\<close>

datatype file_content = Db database | Raw nat

datatype node = Dir | File file_content

type_synonym fs = "(path \<times> node) list"

definition exists :: "fs \<Rightarrow> path \<Rightarrow> bool" where
  "exists fs p = (map_of fs p \<noteq> None)"

definition is_dir :: "fs \<Rightarrow> path \<Rightarrow> bool" where
  "is_dir fs p = (map_of fs p = Some Dir)"

fun fs_write :: "path \<Rightarrow> node \<Rightarrow> fs \<Rightarrow> fs" where
  "fs_write p n [] = [(p, n)]"
| "fs_write p n ((q, m) # r) = (if q = p then (p, n) # r else (q, m) # fs_write p n r)"

subsection \<open>Exceptions\<close>

text \<open>
  The exceptions that the modelled code and libraries raise. \<open>KeyboardInterrupt\<close> and
  \<open>SystemExit\<close> derive from \<^verbatim>\<open>BaseException\<close> only; all others derive from
  \<^verbatim>\<open>Exception\<close>. The four database exceptions derive from \<^verbatim>\<open>sqlite3.Error\<close>.
\<close>

datatype exn =
    FileNotFoundError
  | FileExistsError
  | NotADirectoryError
  | OperationalError string
  | IntegrityError string
  | DatabaseError string
  | ProgrammingError string
  | OtherException string
  | KeyboardInterrupt
  | SystemExit

fun is_Exception :: "exn \<Rightarrow> bool" where
  "is_Exception KeyboardInterrupt = False"
| "is_Exception SystemExit = False"
| "is_Exception _ = True"

fun is_sqlite3_Error :: "exn \<Rightarrow> bool" where
  "is_sqlite3_Error (OperationalError _) = True"
| "is_sqlite3_Error (IntegrityError _) = True"
| "is_sqlite3_Error (DatabaseError _) = True"
| "is_sqlite3_Error (ProgrammingError _) = True"
| "is_sqlite3_Error _ = False"

text \<open>
  \<^verbatim>\<open>Path.mkdir(exist_ok=True)\<close>, without \<^verbatim>\<open>parents=True\<close>: an existing directory is
  accepted, an existing file is not, and the parent must be a directory.
\<close>

definition mkdir_exist_ok :: "path \<Rightarrow> fs \<Rightarrow> exn + fs" where
  "mkdir_exist_ok p fs =
     (case map_of fs p of
        Some Dir \<Rightarrow> Inr fs
      | Some (File _) \<Rightarrow> Inl FileExistsError
      | None \<Rightarrow>
          (case map_of fs (parent p) of
             None \<Rightarrow> Inl FileNotFoundError
           | Some (File _) \<Rightarrow> Inl NotADirectoryError
           | Some Dir \<Rightarrow> Inr (fs_write p Dir fs)))"

section \<open>The storage engine\<close>

subsection \<open>Schema statements\<close>

definition has_obj :: "string \<Rightarrow> string \<Rightarrow> database \<Rightarrow> bool" where
  "has_obj ty nm db = list_ex (\<lambda>(t, n, tb). t = ty \<and> n = nm) (sqlite_master db)"

text \<open>
  \<^verbatim>\<open>CREATE TABLE IF NOT EXISTS\<close>: nothing happens when a table of that name exists.
  Otherwise the table is entered in \<^verbatim>\<open>sqlite_master\<close>; a \<^verbatim>\<open>UNIQUE\<close> column brings
  the automatic index \<^verbatim>\<open>sqlite_autoindex_<table>_1\<close>, and the first
  \<^verbatim>\<open>AUTOINCREMENT\<close> table brings the internal table \<^verbatim>\<open>sqlite_sequence\<close>. The order
  of the rows of \<^verbatim>\<open>sqlite_master\<close> carries no meaning here.
\<close>

definition create_table_if_not_exists ::
    "string \<Rightarrow> bool \<Rightarrow> bool \<Rightarrow> database \<Rightarrow> exn + database" where
  "create_table_if_not_exists nm autoincrement unique_column db =
     (if has_obj ''table'' nm db then Inr db
      else if has_obj ''index'' nm db
        then Inl (OperationalError (''there is already an index named '' @ nm))
      else Inr (db\<lparr>sqlite_master := sqlite_master db @ [(''table'', nm, nm)]
          @ (if unique_column then [(''index'', ''sqlite_autoindex_'' @ nm @ ''_1'', nm)] else [])
          @ (if autoincrement \<and> \<not> has_obj ''table'' ''sqlite_sequence'' db
             then [(''table'', ''sqlite_sequence'', ''sqlite_sequence'')] else [])\<rparr>))"

definition create_index_if_not_exists :: "string \<Rightarrow> string \<Rightarrow> database \<Rightarrow> exn + database" where
  "create_index_if_not_exists nm tbl db =
     (if has_obj ''index'' nm db then Inr db
      else if has_obj ''table'' nm db
        then Inl (OperationalError (''there is already a table named '' @ nm))
      else if \<not> has_obj ''table'' tbl db
        then Inl (OperationalError (''no such table: main.'' @ tbl))
      else Inr (db\<lparr>sqlite_master := sqlite_master db @ [(''index'', nm, tbl)]\<rparr>))"

definition create_trigger_if_not_exists :: "string \<Rightarrow> string \<Rightarrow> database \<Rightarrow> exn + database" where
  "create_trigger_if_not_exists nm tbl db =
     (if has_obj ''trigger'' nm db then Inr db
      else if \<not> has_obj ''table'' tbl db
        then Inl (OperationalError (''no such table: main.'' @ tbl))
      else Inr (db\<lparr>sqlite_master := sqlite_master db @ [(''trigger'', nm, tbl)]\<rparr>))"

subsection \<open>Row statements\<close>

text \<open>
  The values that an \<^verbatim>\<open>INSERT INTO messages\<close> supplies. \<open>None\<close> is \<^verbatim>\<open>NULL\<close> or an
  omitted column; for the timestamp, \<open>None\<close> is the omitted column, which takes the
  default \<^verbatim>\<open>CURRENT_TIMESTAMP\<close>, and \<open>Some x\<close> an explicit value \<open>x\<close>, of any
  storage class.
\<close>

record message_values =
  v_id :: "int option"
  v_conversation_id :: "int option"
  v_role :: "string option"
  v_content :: "string option"
  v_timestamp :: "sqlval option"
  v_token_count :: "int option"

text \<open>
  \<^verbatim>\<open>INTEGER PRIMARY KEY AUTOINCREMENT\<close>: a new row gets an id above every id in the table
  and above the largest id that \<^verbatim>\<open>sqlite_sequence\<close> remembers.
\<close>

definition sequence_of :: "string \<Rightarrow> database \<Rightarrow> int" where
  "sequence_of tbl db = (case map_of (sqlite_sequence db) tbl of None \<Rightarrow> 0 | Some s \<Rightarrow> s)"

definition next_rowid :: "string \<Rightarrow> int list \<Rightarrow> database \<Rightarrow> int" where
  "next_rowid tbl ids db = fold max ids (max 0 (sequence_of tbl db)) + 1"

definition set_sequence :: "string \<Rightarrow> int \<Rightarrow> database \<Rightarrow> database" where
  "set_sequence tbl i db =
     db\<lparr>sqlite_sequence := (tbl, max i (sequence_of tbl db))
          # filter (\<lambda>(t, s). t \<noteq> tbl) (sqlite_sequence db)\<rparr>"

text \<open>
  The trigger of the schema:
  \<^verbatim>\<open>AFTER INSERT ON messages BEGIN UPDATE conversations SET updated_at = CURRENT_TIMESTAMP
  WHERE id = NEW.conversation_id; END\<close>.
  \<open>now\<close> is the text of \<^verbatim>\<open>CURRENT_TIMESTAMP\<close> in the statement that fires it.
\<close>

definition update_conversation_timestamp :: "string \<Rightarrow> message \<Rightarrow> database \<Rightarrow> database" where
  "update_conversation_timestamp now new db =
     db\<lparr>conversations :=
          map (\<lambda>c. if conv_id c = conversation_id new then c\<lparr>updated_at := Text now\<rparr> else c)
            (conversations db)\<rparr>"

text \<open>
  The conflict clause of an \<^verbatim>\<open>INSERT\<close>: \<^verbatim>\<open>INSERT OR ABORT\<close> (the same as a plain
  \<^verbatim>\<open>INSERT\<close>), \<^verbatim>\<open>OR FAIL\<close>, \<^verbatim>\<open>OR ROLLBACK\<close>, \<^verbatim>\<open>OR IGNORE\<close> and \<^verbatim>\<open>OR REPLACE\<close>
  (also written \<^verbatim>\<open>REPLACE INTO\<close>).
\<close>

datatype on_conflict = OrAbort | OrFail | OrRollback | OrIgnore | OrReplace

text \<open>
  What an \<^verbatim>\<open>INSERT\<close> of one row does: it raises an exception, or skips the row without
  one, or stores the row.
\<close>

datatype insert_result = Rejected exn | Skipped | Stored database

text \<open>
  A violated \<^verbatim>\<open>NOT NULL\<close>, \<^verbatim>\<open>CHECK\<close> or uniqueness constraint: \<^verbatim>\<open>OR IGNORE\<close> skips the
  row, every other clause that reaches here raises.
\<close>

definition violation :: "on_conflict \<Rightarrow> string \<Rightarrow> insert_result" where
  "violation oc msg = (if oc = OrIgnore then Skipped else Rejected (IntegrityError msg))"

text \<open>
  Storing a row of \<^verbatim>\<open>messages\<close> that has passed the constraints: a row with the same
  id gives way (there is one only under \<^verbatim>\<open>OR REPLACE\<close>), the sequence follows the id,
  and the trigger fires if triggers are enabled.
\<close>

definition store_message :: "bool \<Rightarrow> string \<Rightarrow> message \<Rightarrow> database \<Rightarrow> database" where
  "store_message triggers now new db =
     (let db1 = set_sequence ''messages'' (msg_id new)
            (db\<lparr>messages := filter (\<lambda>m. msg_id m \<noteq> msg_id new) (messages db) @ [new]\<rparr>)
      in if triggers \<and> has_obj ''trigger'' ''update_conversation_timestamp'' db1
         then update_conversation_timestamp now new db1 else db1)"

text \<open>
  \<^verbatim>\<open>INSERT INTO messages\<close> against the table as the schema declares it: the
  \<^verbatim>\<open>NOT NULL\<close> columns, then
  \<^verbatim>\<open>CHECK(role IN ('user', 'assistant', 'system'))\<close>, then the primary key, then the
  foreign key. The settings of the connection enter as three flags: \<open>fk\<close> is the
  \<^verbatim>\<open>foreign_keys\<close> pragma, without which the foreign key is not enforced;
  \<open>ignore_check\<close> is the \<^verbatim>\<open>ignore_check_constraints\<close> pragma, with which the
  \<^verbatim>\<open>CHECK\<close> is not enforced; \<open>triggers\<close> says whether triggers are enabled. For the
  columns without a default and for the \<^verbatim>\<open>CHECK\<close>, \<^verbatim>\<open>OR REPLACE\<close> raises as
  \<^verbatim>\<open>OR ABORT\<close> does; on the primary key it removes the row that has the id. A foreign
  key violation raises under every clause. The trigger fires after the row is stored.
\<close>

definition insert_message ::
    "on_conflict \<Rightarrow> bool \<Rightarrow> bool \<Rightarrow> bool \<Rightarrow> string \<Rightarrow> message_values \<Rightarrow> database
      \<Rightarrow> insert_result" where
  "insert_message oc fk ignore_check triggers now v db =
     (if \<not> has_obj ''table'' ''messages'' db
        then Rejected (OperationalError ''no such table: messages'')
      else case v_conversation_id v of
        None \<Rightarrow> violation oc ''NOT NULL constraint failed: messages.conversation_id''
      | Some cid \<Rightarrow>
     (case v_role v of
        None \<Rightarrow> violation oc ''NOT NULL constraint failed: messages.role''
      | Some r \<Rightarrow>
     (case v_content v of
        None \<Rightarrow> violation oc ''NOT NULL constraint failed: messages.content''
      | Some ct \<Rightarrow>
        if \<not> ignore_check \<and> r \<notin> set [''user'', ''assistant'', ''system'']
          then violation oc ''CHECK constraint failed: role''
        else
          let ids = map msg_id (messages db);
              i = (case v_id v of None \<Rightarrow> next_rowid ''messages'' ids db | Some i \<Rightarrow> i);
              new = \<lparr>msg_id = i, conversation_id = cid, role = r, content = ct,
                     timestamp = (case v_timestamp v of None \<Rightarrow> Text now | Some t \<Rightarrow> t),
                     token_count = v_token_count v\<rparr>
          in if i \<in> set ids \<and> oc \<noteq> OrReplace
               then violation oc ''UNIQUE constraint failed: messages.id''
             else if fk \<and> cid \<notin> set (map conv_id (conversations db))
               then Rejected (IntegrityError ''FOREIGN KEY constraint failed'')
             else Stored (store_message triggers now new db))))"

text \<open>
  \<^verbatim>\<open>DELETE FROM conversations WHERE id = ?\<close>. The clause
  \<^verbatim>\<open>FOREIGN KEY (conversation_id) REFERENCES conversations(id) ON DELETE CASCADE\<close> of
  \<^verbatim>\<open>messages\<close> takes the messages of a deleted conversation with it, on a connection
  whose \<^verbatim>\<open>foreign_keys\<close> pragma is on.
\<close>

definition delete_conversation :: "bool \<Rightarrow> int \<Rightarrow> database \<Rightarrow> exn + database" where
  "delete_conversation fk cid db =
     (if \<not> has_obj ''table'' ''conversations'' db
        then Inl (OperationalError ''no such table: conversations'')
      else Inr (db\<lparr>conversations := filter (\<lambda>c. conv_id c \<noteq> cid) (conversations db),
                   messages :=
                     (if fk \<and> has_obj ''table'' ''messages'' db
                          \<and> cid \<in> set (map conv_id (conversations db))
                      then filter (\<lambda>m. conversation_id m \<noteq> cid) (messages db)
                      else messages db)\<rparr>))"

subsection \<open>Connections\<close>

text \<open>
  A \<^verbatim>\<open>sqlite3.Connection\<close>: the committed image of the file (\<open>disk\<close>), the image this
  connection sees (\<open>work\<close>), whether a transaction is open, the \<^verbatim>\<open>foreign_keys\<close>
  pragma, the \<^verbatim>\<open>ignore_check_constraints\<close> pragma, whether triggers are enabled,
  whether the connection is closed, and the methods called on it so far.
  \<open>is_db\<close> is false for a non-empty file that is not a database.
\<close>

datatype call = Commit | Rollback | Close

record connection =
  conn_path :: path
  is_db :: bool
  disk :: database
  work :: database
  in_transaction :: bool
  foreign_keys :: bool
  ignore_check_constraints :: bool
  triggers_enabled :: bool
  closed :: bool
  calls :: "call list"

text \<open>
  A new connection has the engine's defaults: no transaction is open, foreign key
  enforcement is off (SQLite enables it per connection, by \<^verbatim>\<open>PRAGMA foreign_keys = ON\<close>),
  \<^verbatim>\<open>CHECK\<close> constraints are enforced and triggers are enabled.
\<close>

definition new_connection :: "path \<Rightarrow> bool \<Rightarrow> database \<Rightarrow> connection" where
  "new_connection p ok d =
     \<lparr>conn_path = p, is_db = ok, disk = d, work = d, in_transaction = False,
      foreign_keys = False, ignore_check_constraints = False, triggers_enabled = True,
      closed = False, calls = []\<rparr>"

text \<open>
  \<^verbatim>\<open>sqlite3.connect(path)\<close>: a missing file is created, empty, when its directory
  exists; a directory, or a path in no directory, cannot be opened.
\<close>

definition connect :: "path \<Rightarrow> fs \<Rightarrow> exn + (connection \<times> fs)" where
  "connect p fs =
     (case map_of fs p of
        Some Dir \<Rightarrow> Inl (OperationalError ''unable to open database file'')
      | Some (File (Db d)) \<Rightarrow> Inr (new_connection p True d, fs)
      | Some (File (Raw n)) \<Rightarrow> Inr (new_connection p (n = 0) empty_db, fs)
      | None \<Rightarrow>
          if is_dir fs (parent p)
          then Inr (new_connection p True empty_db, fs_write p (File (Db empty_db)) fs)
          else Inl (OperationalError ''unable to open database file''))"

definition commit :: "connection \<Rightarrow> exn option \<times> connection" where
  "commit c =
     (if closed c
      then (Some (ProgrammingError ''Cannot operate on a closed database.''),
            c\<lparr>calls := calls c @ [Commit]\<rparr>)
      else (None, c\<lparr>disk := work c, in_transaction := False, calls := calls c @ [Commit]\<rparr>))"

definition rollback :: "connection \<Rightarrow> exn option \<times> connection" where
  "rollback c =
     (if closed c
      then (Some (ProgrammingError ''Cannot operate on a closed database.''),
            c\<lparr>calls := calls c @ [Rollback]\<rparr>)
      else (None, c\<lparr>work := disk c, in_transaction := False, calls := calls c @ [Rollback]\<rparr>))"

text \<open>Closing drops what was not committed.\<close>

definition close :: "connection \<Rightarrow> connection" where
  "close c = c\<lparr>work := disk c, in_transaction := False, closed := True,
               calls := calls c @ [Close]\<rparr>"

definition stmt_guard :: "connection \<Rightarrow> exn option" where
  "stmt_guard c =
     (if closed c then Some (ProgrammingError ''Cannot operate on a closed database.'')
      else if \<not> is_db c then Some (DatabaseError ''file is not a database'')
      else None)"

text \<open>
  \<^verbatim>\<open>cursor.execute\<close> of a schema statement. The Python module opens no transaction for
  it, so outside a transaction its effect is committed at once.
\<close>

definition execute_schema ::
    "(database \<Rightarrow> exn + database) \<Rightarrow> connection \<Rightarrow> exn option \<times> connection" where
  "execute_schema stmt c =
     (case stmt_guard c of
        Some e \<Rightarrow> (Some e, c)
      | None \<Rightarrow>
          (case stmt (work c) of
             Inl e \<Rightarrow> (Some e, c)
           | Inr d \<Rightarrow> (None, c\<lparr>work := d, disk := (if in_transaction c then disk c else d)\<rparr>)))"

text \<open>
  \<^verbatim>\<open>cursor.execute\<close> of an \<^verbatim>\<open>INSERT\<close>, \<^verbatim>\<open>UPDATE\<close> or \<^verbatim>\<open>DELETE\<close>: the Python
  module opens a transaction first, and the change stays uncommitted.
\<close>

definition execute_dml ::
    "(bool \<Rightarrow> database \<Rightarrow> exn + database) \<Rightarrow> connection \<Rightarrow> exn option \<times> connection" where
  "execute_dml stmt c =
     (case stmt_guard c of
        Some e \<Rightarrow> (Some e, c)
      | None \<Rightarrow>
          (case stmt (foreign_keys c) (work c) of
             Inl e \<Rightarrow> (Some e, c\<lparr>in_transaction := True\<rparr>)
           | Inr d \<Rightarrow> (None, c\<lparr>work := d, in_transaction := True\<rparr>)))"

text \<open>
  \<^verbatim>\<open>cursor.execute\<close> of an \<^verbatim>\<open>INSERT INTO messages\<close> of one row, with its conflict
  clause. The Python module opens a transaction first. A skipped row changes nothing and
  raises nothing. An exception under \<^verbatim>\<open>OR ROLLBACK\<close> also rolls the open transaction
  back.
\<close>

definition execute_insert ::
    "on_conflict \<Rightarrow> string \<Rightarrow> message_values \<Rightarrow> connection \<Rightarrow> exn option \<times> connection" where
  "execute_insert oc now v c =
     (case stmt_guard c of
        Some e \<Rightarrow> (Some e, c)
      | None \<Rightarrow>
          (case insert_message oc (foreign_keys c) (ignore_check_constraints c)
                  (triggers_enabled c) now v (work c) of
             Rejected e \<Rightarrow>
               (Some e,
                if oc = OrRollback then c\<lparr>work := disk c, in_transaction := False\<rparr>
                else c\<lparr>in_transaction := True\<rparr>)
           | Skipped \<Rightarrow> (None, c\<lparr>in_transaction := True\<rparr>)
           | Stored d \<Rightarrow> (None, c\<lparr>work := d, in_transaction := True\<rparr>)))"

section \<open>The connection manager (\<^verbatim>\<open>src/database/connection.py\<close>)\<close>

record DatabaseManager =
  db_path :: path

text \<open>
  \<^verbatim>\<open>_ensure_directories\<close> (a name cannot start with an underscore here). The logging
  calls of the module are left out: they change no state that is modelled.
\<close>

definition ensure_directories :: "path \<Rightarrow> DatabaseManager \<Rightarrow> fs \<Rightarrow> exn option \<times> fs" where
  "ensure_directories project_root self fs =
     (case mkdir_exist_ok (DATA_DIR project_root) fs of
        Inl e \<Rightarrow> (Some e, fs)
      | Inr fs1 \<Rightarrow>
     (case mkdir_exist_ok (CONVERSATIONS_DIR project_root) fs1 of
        Inl e \<Rightarrow> (Some e, fs1)
      | Inr fs2 \<Rightarrow>
     (case mkdir_exist_ok (DATA_DIR project_root @ [''logs'']) fs2 of
        Inl e \<Rightarrow> (Some e, fs2)
      | Inr fs3 \<Rightarrow> (None, fs3))))"

text \<open>
  The exception handler of \<^verbatim>\<open>get_connection\<close>: \<^verbatim>\<open>except Exception\<close> calls
  \<^verbatim>\<open>conn.rollback()\<close> and raises the exception again; an exception that
  \<^verbatim>\<open>rollback\<close> itself raises replaces it. Other exceptions pass the handler by.
\<close>

definition on_exception :: "exn \<Rightarrow> connection \<Rightarrow> exn \<times> connection" where
  "on_exception e c =
     (if is_Exception e
      then (case rollback c of (None, c') \<Rightarrow> (e, c') | (Some e', c') \<Rightarrow> (e', c'))
      else (e, c))"

definition flush :: "connection \<Rightarrow> fs \<Rightarrow> fs" where
  "flush c fs = (if is_db c then fs_write (conn_path c) (File (Db (disk c))) fs else fs)"

text \<open>
  \<^verbatim>\<open>get_connection\<close> with the block of the \<^verbatim>\<open>with\<close> statement as \<open>body\<close>: the block
  gets the connection and leaves with a value or an exception, and with the connection
  as it then is. The result is what the caller sees, the connection after
  \<^verbatim>\<open>conn.close()\<close> (none when \<^verbatim>\<open>sqlite3.connect\<close> failed) and the file system.
  \<^verbatim>\<open>conn.commit()\<close> is inside the \<^verbatim>\<open>try\<close>, so its exception reaches the handler too.
\<close>

definition get_connection ::
    "DatabaseManager \<Rightarrow> (connection \<Rightarrow> (exn + 'a) \<times> connection) \<Rightarrow> fs
      \<Rightarrow> (exn + 'a) \<times> connection option \<times> fs" where
  "get_connection self body fs =
     (case connect (db_path self) fs of
        Inl e \<Rightarrow> (Inl e, None, fs)
      | Inr (conn, fs1) \<Rightarrow>
          (case body conn of (r, c1) \<Rightarrow>
             let (r2, c2) =
                   (case r of
                      Inr v \<Rightarrow>
                        (case commit c1 of
                           (None, c) \<Rightarrow> (Inr v, c)
                         | (Some e, c) \<Rightarrow> (case on_exception e c of (e', c') \<Rightarrow> (Inl e', c')))
                    | Inl e \<Rightarrow> (case on_exception e c1 of (e', c') \<Rightarrow> (Inl e', c')));
                 c3 = close c2
             in (r2, Some c3, flush c3 fs1)))"

text \<open>Statements in sequence: the first exception ends the block.\<close>

fun run_all ::
    "(connection \<Rightarrow> exn option \<times> connection) list \<Rightarrow> connection \<Rightarrow> exn option \<times> connection" where
  "run_all [] c = (None, c)"
| "run_all (s # ss) c = (case s c of (Some e, c') \<Rightarrow> (Some e, c') | (None, c') \<Rightarrow> run_all ss c')"

text \<open>
  The statements of \<^verbatim>\<open>_initialize_database\<close>, in the order of the source: three tables
  (\<^verbatim>\<open>conversations\<close> with \<^verbatim>\<open>AUTOINCREMENT\<close> and a \<^verbatim>\<open>UNIQUE\<close> column, the other two
  with \<^verbatim>\<open>AUTOINCREMENT\<close>), four indexes, the trigger, and \<^verbatim>\<open>conn.commit()\<close>.
\<close>

definition schema_statements :: "(connection \<Rightarrow> exn option \<times> connection) list" where
  "schema_statements =
     [execute_schema (create_table_if_not_exists ''conversations'' True True),
      execute_schema (create_table_if_not_exists ''messages'' True False),
      execute_schema (create_table_if_not_exists ''model_usage'' True False),
      execute_schema (create_index_if_not_exists ''idx_messages_conversation'' ''messages''),
      execute_schema (create_index_if_not_exists ''idx_conversations_session'' ''conversations''),
      execute_schema (create_index_if_not_exists ''idx_messages_timestamp'' ''messages''),
      execute_schema (create_index_if_not_exists ''idx_model_usage_timestamp'' ''model_usage''),
      execute_schema (create_trigger_if_not_exists ''update_conversation_timestamp'' ''messages''),
      commit]"

definition initialize_block :: "connection \<Rightarrow> (exn + unit) \<times> connection" where
  "initialize_block c =
     (case run_all schema_statements c of (None, c') \<Rightarrow> (Inr (), c') | (Some e, c') \<Rightarrow> (Inl e, c'))"

definition initialize_database ::
    "DatabaseManager \<Rightarrow> fs \<Rightarrow> (exn + unit) \<times> connection option \<times> fs" where
  "initialize_database self fs = get_connection self initialize_block fs"

text \<open>
  \<^verbatim>\<open>DatabaseManager.__init__(db_path=None)\<close>. The file system is returned also when
  the constructor raises, with what it had created until then.
\<close>

definition DatabaseManager_init ::
    "path \<Rightarrow> path option \<Rightarrow> fs \<Rightarrow> (exn + DatabaseManager) \<times> fs" where
  "DatabaseManager_init project_root db_path_arg fs =
     (let self = \<lparr>db_path = (case db_path_arg of None \<Rightarrow> DB_PATH project_root | Some p \<Rightarrow> p)\<rparr>
      in case ensure_directories project_root self fs of
           (Some e, fs1) \<Rightarrow> (Inl e, fs1)
         | (None, fs1) \<Rightarrow>
             (case initialize_database self fs1 of
                (Inl e, _, fs2) \<Rightarrow> (Inl e, fs2)
              | (Inr _, _, fs2) \<Rightarrow> (Inr self, fs2)))"

section \<open>The diagnostic script (\<^verbatim>\<open>scripts/check_data_integrity.py\<close>)\<close>

subsection \<open>Output\<close>

text \<open>
  The report is the list of the lines printed. A line keeps the text of the source's
  format string and the values put into it, unformatted: a string, a path, an integer,
  a byte count shown in megabytes with two decimals (\<open>MiB\<close>), a number shown with no
  decimals (\<open>F0\<close>), a column value (\<open>V\<close>), an exception, a line break inside one \<^verbatim>\<open>print\<close>, and
  the two colour codes that \<^verbatim>\<open>main\<close> prints itself. \<^verbatim>\<open>print_header\<close>,
  \<^verbatim>\<open>print_success\<close>, \<^verbatim>\<open>print_warning\<close> and \<^verbatim>\<open>print_error\<close> each give a line of
  their own kind.
\<close>

datatype frag = S string | P path | I int | MiB nat | F0 nat | V sqlval | X exn
  | NL | Blue | Reset

datatype line =
    HeaderLine string
  | SuccessLine "frag list"
  | WarningLine "frag list"
  | ErrorLine "frag list"
  | Plain "frag list"

definition print_header :: "string \<Rightarrow> line list" where
  "print_header text = [HeaderLine text]"

definition print_success :: "frag list \<Rightarrow> line list" where
  "print_success text = [SuccessLine text]"

definition print_warning :: "frag list \<Rightarrow> line list" where
  "print_warning text = [WarningLine text]"

definition print_error :: "frag list \<Rightarrow> line list" where
  "print_error text = [ErrorLine text]"

subsection \<open>Queries and file sizes\<close>

text \<open>
  \<^verbatim>\<open>stat().st_size\<close>. The size of a database file or of a directory is what the
  operating system reports for it; the parameter \<open>sz\<close> stands for that.
\<close>

definition st_size :: "(node \<Rightarrow> nat) \<Rightarrow> node \<Rightarrow> nat" where
  "st_size sz n = (case n of File (Raw k) \<Rightarrow> k | _ \<Rightarrow> sz n)"

text \<open>\<^verbatim>\<open>SELECT name FROM sqlite_master WHERE type = ?\<close>\<close>

definition select_names :: "string \<Rightarrow> connection \<Rightarrow> exn + string list" where
  "select_names ty c =
     (case stmt_guard c of
        Some e \<Rightarrow> Inl e
      | None \<Rightarrow> Inr (map (\<lambda>(t, n, tb). n) (filter (\<lambda>(t, n, tb). t = ty) (sqlite_master (work c)))))"

definition table_count :: "string \<Rightarrow> database \<Rightarrow> nat" where
  "table_count tbl db =
     (if tbl = ''conversations'' then length (conversations db)
      else if tbl = ''messages'' then length (messages db)
      else if tbl = ''model_usage'' then length (model_usage db)
      else if tbl = ''sqlite_sequence'' then length (sqlite_sequence db)
      else 0)"

text \<open>\<^verbatim>\<open>SELECT COUNT(*) FROM <table>\<close>\<close>

definition count_rows :: "string \<Rightarrow> connection \<Rightarrow> exn + nat" where
  "count_rows tbl c =
     (case stmt_guard c of
        Some e \<Rightarrow> Inl e
      | None \<Rightarrow>
          if has_obj ''table'' tbl (work c) then Inr (table_count tbl (work c))
          else Inl (OperationalError (''no such table: '' @ tbl)))"

text \<open>\<^verbatim>\<open>PRAGMA integrity_check\<close>, first column of the first row.\<close>

definition pragma_integrity_check :: "connection \<Rightarrow> exn + string" where
  "pragma_integrity_check c =
     (case stmt_guard c of Some e \<Rightarrow> Inl e | None \<Rightarrow> Inr (integrity_check (work c)))"

subsection \<open>The checks\<close>

definition check_directories :: "path \<Rightarrow> fs \<Rightarrow> bool \<times> line list" where
  "check_directories project_root fs =
     (let directories =
            [(''Data directory'', DATA_DIR project_root),
             (''Conversations directory'', CONVERSATIONS_DIR project_root),
             (''Logs directory'', LOGS_DIR project_root)]
      in fold (\<lambda>(name, p) (all_exist, out).
                 if exists fs p
                 then (all_exist, out @ print_success [S name, S '' exists: '', P p])
                 else (False, out @ print_error [S name, S '' missing: '', P p]))
           directories (True, print_header ''Checking Directories''))"

text \<open>
  The loop over \<^verbatim>\<open>required_tables\<close> in \<^verbatim>\<open>check_database\<close>. An exception leaves the
  loop with the lines printed so far.
\<close>

fun table_lines :: "string list \<Rightarrow> connection \<Rightarrow> string list \<Rightarrow> exn option \<times> line list" where
  "table_lines tables conn [] = (None, [])"
| "table_lines tables conn (t # ts) =
     (if t \<in> set tables
      then (case count_rows t conn of
              Inl e \<Rightarrow> (Some e, print_success [S ''  '', S t])
            | Inr n \<Rightarrow>
                (case table_lines tables conn ts of
                   (r, out) \<Rightarrow>
                     (r, print_success [S ''  '', S t] @ [Plain [S ''    Rows: '', I (int n)]] @ out)))
      else (case table_lines tables conn ts of
              (r, out) \<Rightarrow> (r, print_error [S ''  '', S t, S '' (missing)''] @ out)))"

definition starts_with :: "string \<Rightarrow> string \<Rightarrow> bool" where
  "starts_with pre s = (take (length pre) s = pre)"

text \<open>The \<^verbatim>\<open>try\<close> block of \<^verbatim>\<open>check_database\<close>: the exception raised, if any, and the lines.\<close>

definition check_database_try :: "path \<Rightarrow> fs \<Rightarrow> exn option \<times> line list" where
  "check_database_try p fs =
     (case connect p fs of
        Inl e \<Rightarrow> (Some e, [])
      | Inr (conn, _) \<Rightarrow>
     (case select_names ''table'' conn of
        Inl e \<Rightarrow> (Some e, [])
      | Inr tables \<Rightarrow>
     (case table_lines tables conn [''conversations'', ''messages'', ''model_usage''] of
        (Some e, out1) \<Rightarrow> (Some e, [Plain [NL, S ''  Tables:'']] @ out1)
      | (None, out1) \<Rightarrow>
     (case select_names ''index'' conn of
        Inl e \<Rightarrow> (Some e, [Plain [NL, S ''  Tables:'']] @ out1)
      | Inr indexes \<Rightarrow>
          (None,
           [Plain [NL, S ''  Tables:'']] @ out1
           @ [Plain [NL, S ''  Indexes: '', I (int (length indexes))]]
           @ map (\<lambda>idx. Plain [S ''    - '', S idx])
               (filter (\<lambda>idx. \<not> starts_with ''sqlite_'' idx) indexes)
           @ print_success [S ''Database structure is valid''])))))"

text \<open>
  A check returns its verdict, or the exception that leaves it: \<^verbatim>\<open>except sqlite3.Error\<close>
  handles the database exceptions only.
\<close>

definition check_database :: "path \<Rightarrow> (node \<Rightarrow> nat) \<Rightarrow> fs \<Rightarrow> (exn + bool) \<times> line list" where
  "check_database project_root sz fs =
     (case map_of fs (DB_PATH project_root) of
        None \<Rightarrow>
          (Inr False,
           print_header ''Checking Database''
           @ print_error [S ''Database file not found: '', P (DB_PATH project_root)]
           @ print_warning [S ''Run: python scripts/initialize_data.py''])
      | Some n \<Rightarrow>
          let size_bytes = st_size sz n;
              out0 = print_header ''Checking Database''
                @ print_success [S ''Database file exists: '', P (DB_PATH project_root)]
                @ [Plain [S ''  Size: '', MiB size_bytes, S '' MB ('', I (int size_bytes), S '' bytes)'']]
          in (case check_database_try (DB_PATH project_root) fs of
                (None, out) \<Rightarrow> (Inr True, out0 @ out)
              | (Some e, out) \<Rightarrow>
                  if is_sqlite3_Error e
                  then (Inr False, out0 @ out @ print_error [S ''Database error: '', X e])
                  else (Inl e, out0 @ out)))"

definition check_database_integrity_try :: "path \<Rightarrow> fs \<Rightarrow> (exn + bool) \<times> line list" where
  "check_database_integrity_try p fs =
     (case connect p fs of
        Inl e \<Rightarrow> (Inl e, [])
      | Inr (conn, _) \<Rightarrow>
          (case pragma_integrity_check conn of
             Inl e \<Rightarrow> (Inl e, [])
           | Inr result \<Rightarrow>
               if result = ''ok''
               then (Inr True, print_success [S ''Database integrity: OK''])
               else (Inr False, print_error [S ''Database integrity issues: '', S result])))"

definition check_database_integrity :: "path \<Rightarrow> fs \<Rightarrow> (exn + bool) \<times> line list" where
  "check_database_integrity project_root fs =
     (if \<not> exists fs (DB_PATH project_root)
      then (Inr False,
            print_header ''Database Integrity Check''
            @ print_warning [S ''Database doesn't exist, skipping integrity check''])
      else (case check_database_integrity_try (DB_PATH project_root) fs of
              (Inr b, out) \<Rightarrow> (Inr b, print_header ''Database Integrity Check'' @ out)
            | (Inl e, out) \<Rightarrow>
                if is_sqlite3_Error e
                then (Inr False,
                      print_header ''Database Integrity Check'' @ out
                      @ print_error [S ''Integrity check failed: '', X e])
                else (Inl e, print_header ''Database Integrity Check'' @ out)))"

text \<open>
  One round of the loop of \<^verbatim>\<open>check_logs\<close>. \<^verbatim>\<open>size_mb = size / (1024 * 1024)\<close> divides
  by a power of two, so \<^verbatim>\<open>size_mb > 100\<close> holds exactly when the size in bytes exceeds
  \<open>100 * 1024 * 1024\<close>, and likewise for 10; the comparisons are made on the bytes.
\<close>

definition check_log_file :: "path \<Rightarrow> (node \<Rightarrow> nat) \<Rightarrow> fs \<Rightarrow> string \<Rightarrow> line list" where
  "check_log_file project_root sz fs log_file =
     (case map_of fs (LOGS_DIR project_root @ [log_file]) of
        Some n \<Rightarrow>
          let size = st_size sz n
          in if size > 100 * (1024 * 1024)
               then print_warning [S log_file, S '' is large: '', MiB size, S '' MB'']
                    @ [Plain [S ''  Consider archiving: python scripts/archive_logs.py'']]
             else if size > 10 * (1024 * 1024)
               then print_success [S log_file, S '' exists ('', MiB size, S '' MB)'']
             else print_success [S log_file, S '' exists ('', F0 size, S '' KB)'']
      | None \<Rightarrow> print_warning [S log_file, S '' not found (will be created on first use)''])"

definition check_logs :: "path \<Rightarrow> (node \<Rightarrow> nat) \<Rightarrow> fs \<Rightarrow> line list" where
  "check_logs project_root sz fs =
     print_header ''Checking Log Files''
     @ concat (map (check_log_file project_root sz fs) [''app.log'', ''error.log'', ''api.log''])"

subsection \<open>Statistics and suggestions\<close>

text \<open>
  \<^verbatim>\<open>SELECT key, COUNT(*) ... GROUP BY key\<close>: one row for each key. SQL leaves the order
  of the groups open; \<^verbatim>\<open>ORDER BY usage_count DESC\<close> fixes it up to ties.
\<close>

definition group_count :: "'a list \<Rightarrow> ('a \<times> nat) list" where
  "group_count xs = map (\<lambda>k. (k, length (filter (\<lambda>x. x = k) xs))) (remdups xs)"

definition order_by_count_desc :: "('a \<times> nat) list \<Rightarrow> ('a \<times> nat) list" where
  "order_by_count_desc gs = rev (sort_key snd gs)"

text \<open>
  The \<^verbatim>\<open>try\<close> block of \<^verbatim>\<open>get_statistics\<close>. Once both counts have succeeded the tables
  \<^verbatim>\<open>conversations\<close> and \<^verbatim>\<open>messages\<close> exist, and the later queries read only them.
\<close>

definition get_statistics_try :: "path \<Rightarrow> fs \<Rightarrow> exn option \<times> line list" where
  "get_statistics_try p fs =
     (case connect p fs of
        Inl e \<Rightarrow> (Some e, [])
      | Inr (conn, _) \<Rightarrow>
     (case count_rows ''conversations'' conn of
        Inl e \<Rightarrow> (Some e, [])
      | Inr total_conversations \<Rightarrow>
     (case count_rows ''messages'' conn of
        Inl e \<Rightarrow> (Some e, [Plain [S ''Total Conversations: '', I (int total_conversations)]])
      | Inr total_messages \<Rightarrow>
          let db = work conn;
              total_tokens = sum_list (List.map_filter token_count (messages db));
              dates = filter (\<lambda>d. d \<noteq> Null) (map created_at (conversations db))
          in (None,
              [Plain [S ''Total Conversations: '', I (int total_conversations)],
               Plain [S ''Total Messages: '', I (int total_messages)],
               Plain [NL, S ''Messages by Role:'']]
              @ map (\<lambda>(r, count). Plain [S ''  '', S r, S '': '', I (int count)])
                  (group_count (map role (messages db)))
              @ [Plain [NL, S ''Total Tokens Used: '', I total_tokens],
                 Plain [NL, S ''Model Usage:'']]
              @ map (\<lambda>(model, count). Plain [S ''  '', S model, S '': '', I (int count), S '' conversations''])
                  (order_by_count_desc (group_count (map conv_model_name (conversations db))))
              @ (case dates of
                   [] \<Rightarrow> []
                 | d # ds \<Rightarrow>
                     let min_date = fold sql_min ds d; max_date = fold sql_max ds d
                     in if truthy min_date \<and> truthy max_date
                        then [Plain [NL, S ''First Conversation: '', V min_date],
                              Plain [S ''Last Conversation: '', V max_date]]
                        else [])))))"

definition get_statistics :: "path \<Rightarrow> fs \<Rightarrow> exn option \<times> line list" where
  "get_statistics project_root fs =
     (if \<not> exists fs (DB_PATH project_root)
      then (None, print_header ''Database Statistics'' @ print_warning [S ''Database doesn't exist''])
      else (case get_statistics_try (DB_PATH project_root) fs of
              (None, out) \<Rightarrow> (None, print_header ''Database Statistics'' @ out)
            | (Some e, out) \<Rightarrow>
                if is_sqlite3_Error e
                then (None,
                      print_header ''Database Statistics'' @ out
                      @ print_error [S ''Error getting statistics: '', X e])
                else (Some e, print_header ''Database Statistics'' @ out)))"

definition ends_with :: "string \<Rightarrow> string \<Rightarrow> bool" where
  "ends_with suf s = (length suf \<le> length s \<and> drop (length s - length suf) s = suf)"

text \<open>\<^verbatim>\<open>LOGS_DIR.glob("*.log")\<close>: the entries of the directory whose name ends in \<^verbatim>\<open>.log\<close>.\<close>

definition glob_log :: "fs \<Rightarrow> path \<Rightarrow> path list" where
  "glob_log fs d =
     (if is_dir fs d
      then filter (\<lambda>p. p \<noteq> [] \<and> butlast p = d \<and> ends_with ''.log'' (last p)) (remdups (map fst fs))
      else [])"

definition suggestions :: "path \<Rightarrow> (node \<Rightarrow> nat) \<Rightarrow> fs \<Rightarrow> frag list list" where
  "suggestions project_root sz fs =
     (case map_of fs (DB_PATH project_root) of
        None \<Rightarrow> []
      | Some n \<Rightarrow>
          if st_size sz n > 100 * (1024 * 1024)
          then [[S ''Database is large (>100MB). Consider:'', NL,
                 S (''  - Vacuum: sqlite3 data/conversations/conversations.db 'VACUUM;'' @ [CHR 0x27]), NL,
                 S ''  - Archive old conversations'']]
          else [])
     @ concat (map (\<lambda>log_file.
         case map_of fs log_file of
           None \<Rightarrow> []
         | Some n \<Rightarrow>
             if st_size sz n > 50 * (1024 * 1024)
             then [[S (last log_file), S '' is large (>50MB). Consider:'', NL,
                    S ''  - Archive: python scripts/archive_logs.py'', NL,
                    S ''  - Rotate logs'']]
             else [])
         (glob_log fs (LOGS_DIR project_root)))"

definition suggest_maintenance :: "path \<Rightarrow> (node \<Rightarrow> nat) \<Rightarrow> fs \<Rightarrow> line list" where
  "suggest_maintenance project_root sz fs =
     print_header ''Maintenance Suggestions''
     @ (let sg = suggestions project_root sz fs
        in if sg \<noteq> []
           then map (\<lambda>(i, suggestion). Plain ([NL, I (int i), S ''. ''] @ suggestion))
                  (zip [1 ..< Suc (length sg)] sg)
           else print_success [S ''No maintenance needed at this time''])"

subsection \<open>\<^verbatim>\<open>main\<close>\<close>

text \<open>
  \<^verbatim>\<open>all(checks)\<close> of the three verdicts decides the exit code. An exception that a check
  does not handle leaves \<^verbatim>\<open>main\<close> with the lines printed until then. \<open>now\<close> is the
  clock reading printed in the banner, as \<^verbatim>\<open>strftime\<close> formats it.
\<close>

definition summary :: "bool \<Rightarrow> int \<times> line list" where
  "summary ok =
     (if ok
      then (0, print_header ''Summary'' @ print_success [S ''All checks passed!'']
               @ [Plain [NL, S ''Your IntelliChat data is healthy and ready to use.'']])
      else (1, print_header ''Summary'' @ print_warning [S ''Some checks failed'']
               @ [Plain [NL, S ''Recommended actions:''],
                  Plain [S ''1. Review the errors above''],
                  Plain [S ''2. Run: python scripts/initialize_data.py''],
                  Plain [S ''3. Check documentation: data/README.md'']]))"

definition banner :: "string \<Rightarrow> line list" where
  "banner now =
     [Plain [NL, Blue, S (replicate 60 (CHR ''=''))],
      Plain [S ''IntelliChat Data Integrity Check''],
      Plain [S (replicate 60 (CHR ''='')), Reset],
      Plain [S ''Timestamp: '', S now]]"

definition main :: "path \<Rightarrow> (node \<Rightarrow> nat) \<Rightarrow> string \<Rightarrow> fs \<Rightarrow> (exn + int) \<times> line list" where
  "main project_root sz now fs =
     (case check_directories project_root fs of (c1, out1) \<Rightarrow>
      case check_database project_root sz fs of
        (Inl e, out2) \<Rightarrow> (Inl e, banner now @ out1 @ out2)
      | (Inr c2, out2) \<Rightarrow>
     (case check_database_integrity project_root fs of
        (Inl e, out3) \<Rightarrow> (Inl e, banner now @ out1 @ out2 @ out3)
      | (Inr c3, out3) \<Rightarrow>
     (let out4 = check_logs project_root sz fs
      in case get_statistics project_root fs of
           (Some e, out5) \<Rightarrow> (Inl e, banner now @ out1 @ out2 @ out3 @ out4 @ out5)
         | (None, out5) \<Rightarrow>
             (case summary (list_all (\<lambda>b. b) [c1, c2, c3]) of
                (code, out7) \<Rightarrow>
                  (Inr code,
                   banner now @ out1 @ out2 @ out3 @ out4 @ out5
                   @ suggest_maintenance project_root sz fs @ out7)))))"

section \<open>Reading a schema\<close>

text \<open>
  The names of one type in \<^verbatim>\<open>sqlite_master\<close> that do not begin with \<^verbatim>\<open>sqlite_\<close>. The
  engine keeps that prefix for its own objects (\<^verbatim>\<open>sqlite_sequence\<close>, the automatic
  indexes), and \<^verbatim>\<open>check_database\<close> skips them in the same way when it lists indexes.
\<close>

definition user_objects :: "string \<Rightarrow> database \<Rightarrow> string list" where
  "user_objects ty db =
     filter (\<lambda>n. \<not> starts_with ''sqlite_'' n)
       (map (\<lambda>(t, n, tb). n) (filter (\<lambda>(t, n, tb). t = ty) (sqlite_master db)))"

text \<open>The objects that the statements of \<^verbatim>\<open>_initialize_database\<close> name.\<close>

definition schema_complete :: "database \<Rightarrow> bool" where
  "schema_complete db =
     (has_obj ''table'' ''conversations'' db \<and> has_obj ''table'' ''messages'' db
      \<and> has_obj ''table'' ''model_usage'' db
      \<and> has_obj ''index'' ''idx_messages_conversation'' db
      \<and> has_obj ''index'' ''idx_conversations_session'' db
      \<and> has_obj ''index'' ''idx_messages_timestamp'' db
      \<and> has_obj ''index'' ''idx_model_usage_timestamp'' db
      \<and> has_obj ''trigger'' ''update_conversation_timestamp'' db)"

section \<open>Sample data\<close>

text \<open>
  The rows of \<^verbatim>\<open>sqlite_master\<close> that the schema statements leave in a new database
  (shown below to be so), and a database with that schema holding one conversation and
  one message of it.
\<close>

definition initialized_master :: "(string \<times> string \<times> string) list" where
  "initialized_master =
     [(''table'', ''conversations'', ''conversations''),
      (''index'', ''sqlite_autoindex_conversations_1'', ''conversations''),
      (''table'', ''sqlite_sequence'', ''sqlite_sequence''),
      (''table'', ''messages'', ''messages''),
      (''table'', ''model_usage'', ''model_usage''),
      (''index'', ''idx_messages_conversation'', ''messages''),
      (''index'', ''idx_conversations_session'', ''conversations''),
      (''index'', ''idx_messages_timestamp'', ''messages''),
      (''index'', ''idx_model_usage_timestamp'', ''model_usage''),
      (''trigger'', ''update_conversation_timestamp'', ''messages'')]"

definition initialized_db :: database where
  "initialized_db = empty_db\<lparr>sqlite_master := initialized_master\<rparr>"

definition sample_conversation :: conversation where
  "sample_conversation =
     \<lparr>conv_id = 1, session_id = ''s1'', created_at = Text ''2024-06-01 11:00:00'',
      updated_at = Text ''2024-06-01 11:00:00'',
      title = None, conv_model_name = ''llama''\<rparr>"

definition sample_message :: message where
  "sample_message =
     \<lparr>msg_id = 1, conversation_id = 1, role = ''user'', content = ''hello'',
      timestamp = Text ''2024-06-01 11:00:00'', token_count = None\<rparr>"

definition sample_db :: database where
  "sample_db =
     \<lparr>sqlite_master = initialized_master, conversations = [sample_conversation],
      messages = [sample_message], model_usage = [],
      sqlite_sequence = [(''conversations'', 1), (''messages'', 1)], integrity_check = ''ok''\<rparr>"

definition sample_values :: message_values where
  "sample_values =
     \<lparr>v_id = None, v_conversation_id = Some 1, v_role = Some ''assistant'',
      v_content = Some ''hi'', v_timestamp = None, v_token_count = None\<rparr>"

definition sample_now :: string where
  "sample_now = ''2024-06-01 12:00:00''"

definition sample_root :: path where
  "sample_root = [''IntelliChat'']"

definition sample_fs :: fs where
  "sample_fs =
     [(sample_root, Dir),
      (DATA_DIR sample_root, Dir),
      (CONVERSATIONS_DIR sample_root, Dir),
      (LOGS_DIR sample_root, Dir),
      (DB_PATH sample_root, File (Db sample_db))]"

text \<open>
  A file system with the project directory only, the same after the three directories
  have been made, and after a database has been initialized at the default path.
\<close>

definition fresh_fs :: fs where
  "fresh_fs = [(sample_root, Dir)]"

definition dirs_fs :: fs where
  "dirs_fs =
     [(sample_root, Dir),
      (DATA_DIR sample_root, Dir),
      (CONVERSATIONS_DIR sample_root, Dir),
      (LOGS_DIR sample_root, Dir)]"

definition initialized_fs :: fs where
  "initialized_fs = dirs_fs @ [(DB_PATH sample_root, File (Db initialized_db))]"

definition sample_manager :: DatabaseManager where
  "sample_manager = \<lparr>db_path = DB_PATH sample_root\<rparr>"

text \<open>
  Blocks for a \<^verbatim>\<open>with db.get_connection() as conn:\<close> statement: one that deletes
  conversation 1, one that deletes it and then raises the given exception, and one that
  closes the connection itself.
\<close>

definition delete_block :: "connection \<Rightarrow> (exn + unit) \<times> connection" where
  "delete_block c =
     (case execute_dml (\<lambda>fk. delete_conversation fk 1) c of
        (None, c') \<Rightarrow> (Inr (), c')
      | (Some e, c') \<Rightarrow> (Inl e, c'))"




text \<open>The database image in the file at a path, if there is one.\<close>

definition db_at :: "fs \<Rightarrow> path \<Rightarrow> database option" where
  "db_at fs p = (case map_of fs p of Some (File (Db d)) \<Rightarrow> Some d | _ \<Rightarrow> None)"

section \<open>Basic facts about the model\<close>

lemma map_of_fs_write: "map_of (fs_write p n fs) = (map_of fs)(p \<mapsto> n)"
  by (induction fs) (auto simp: fun_eq_iff)

lemma fs_write_same: "map_of fs p = Some n \<Longrightarrow> fs_write p n fs = fs"
  by (induction fs) (auto split: if_splits)

lemma fold_max_ge_init: "(a::int) \<le> fold max ids a"
  by (induction ids arbitrary: a) (auto intro: order_trans [OF max.cobounded2])

lemma fold_max_ge: "x \<in> set ids \<Longrightarrow> (x::int) \<le> fold max ids a"
proof (induction ids arbitrary: a)
  case Nil
  then show ?case by simp
next
  case (Cons y ys)
  show ?case
  proof (cases "x = y")
    case True
    have "y \<le> max y a" by simp
    also have "\<dots> \<le> fold max ys (max y a)" by (rule fold_max_ge_init)
    finally show ?thesis using True by simp
  next
    case False
    with Cons.prems have "x \<in> set ys" by simp
    then show ?thesis using Cons.IH by simp
  qed
qed

lemma next_rowid_fresh: "next_rowid tbl ids db \<notin> set ids"
proof
  assume "next_rowid tbl ids db \<in> set ids"
  then have "next_rowid tbl ids db \<le> fold max ids (max 0 (sequence_of tbl db))"
    by (rule fold_max_ge)
  then show False by (simp add: next_rowid_def)
qed

lemma has_obj_set_sequence [simp]: "has_obj ty nm (set_sequence tbl i db) = has_obj ty nm db"
  by (simp add: has_obj_def set_sequence_def)

lemma has_obj_messages_update [simp]: "has_obj ty nm (db\<lparr>messages := ms\<rparr>) = has_obj ty nm db"
  by (simp add: has_obj_def)

lemma sample_connect:
  "connect (db_path sample_manager) sample_fs
     = Inr (new_connection (DB_PATH sample_root) True sample_db, sample_fs)"
  by (simp add: connect_def sample_manager_def sample_fs_def DB_PATH_def CONVERSATIONS_DIR_def
      DATA_DIR_def LOGS_DIR_def sample_root_def)

lemma sample_delete:
  "execute_dml (\<lambda>fk. delete_conversation fk 1) (new_connection p True sample_db)
     = (None, (new_connection p True sample_db)
               \<lparr>work := sample_db\<lparr>conversations := []\<rparr>, in_transaction := True\<rparr>)"
  by (simp add: execute_dml_def stmt_guard_def new_connection_def delete_conversation_def
      has_obj_def sample_db_def initialized_master_def sample_conversation_def)


lemma sample_delete_block:
  "delete_block (new_connection p True sample_db)
     = (Inr (), (new_connection p True sample_db)
               \<lparr>work := sample_db\<lparr>conversations := []\<rparr>, in_transaction := True\<rparr>)"
  by (simp add: delete_block_def sample_delete)

lemma delete_without_foreign_keys:
  "delete_conversation False cid db = Inr db' \<Longrightarrow> messages db' = messages db"
  by (auto simp: delete_conversation_def split: if_splits)

lemma delete_with_foreign_keys:
  assumes "delete_conversation True cid db = Inr db'"
      and "has_obj ''table'' ''messages'' db"
      and "cid \<in> set (map conv_id (conversations db))"
  shows "\<forall>m \<in> set (messages db'). conversation_id m \<noteq> cid"
  using assms by (auto simp: delete_conversation_def split: if_splits)

lemma mkdir_exist_ok_map:
  "mkdir_exist_ok p fs = Inr fs1 \<Longrightarrow> map_of fs1 = (map_of fs)(p \<mapsto> Dir)"
  by (auto simp: mkdir_exist_ok_def map_of_fs_write fun_eq_iff
      split: option.splits node.splits)

lemma ensure_directories_ok:
  assumes "ensure_directories project_root self fs = (None, fs1)"
  shows "map_of fs1 = (map_of fs)(DATA_DIR project_root \<mapsto> Dir,
           CONVERSATIONS_DIR project_root \<mapsto> Dir, LOGS_DIR project_root \<mapsto> Dir)"
  using assms
  by (auto simp: ensure_directories_def LOGS_DIR_def split: sum.splits
      dest!: mkdir_exist_ok_map)

lemma ensure_directories_other:
  assumes "ensure_directories project_root self fs = (r, fs1)"
      and "q \<noteq> DATA_DIR project_root" "q \<noteq> CONVERSATIONS_DIR project_root"
      and "q \<noteq> LOGS_DIR project_root"
  shows "map_of fs1 q = map_of fs q"
  using assms
  by (auto simp: ensure_directories_def LOGS_DIR_def split: sum.splits
      dest!: mkdir_exist_ok_map)

lemma run_all_fresh:
  "run_all schema_statements (new_connection p True empty_db)
     = (None, (new_connection p True initialized_db)\<lparr>calls := [Commit]\<rparr>)"
  by (simp add: schema_statements_def execute_schema_def stmt_guard_def
      create_table_if_not_exists_def create_index_if_not_exists_def
      create_trigger_if_not_exists_def has_obj_def new_connection_def empty_db_def
      commit_def initialized_master_def initialized_db_def)

lemma initialize_block_fresh:
  "initialize_block (new_connection p True empty_db)
     = (Inr (), (new_connection p True initialized_db)\<lparr>calls := [Commit]\<rparr>)"
  by (simp add: initialize_block_def run_all_fresh)

lemma initialize_database_fresh:
  assumes "map_of fs (db_path self) = None" and "is_dir fs (parent (db_path self))"
  shows "\<exists>c fs'. initialize_database self fs = (Inr (), Some c, fs')
           \<and> map_of fs' = (map_of fs)(db_path self \<mapsto> File (Db initialized_db))"
proof -
  have c: "connect (db_path self) fs
      = Inr (new_connection (db_path self) True empty_db,
             fs_write (db_path self) (File (Db empty_db)) fs)"
    using assms by (simp add: connect_def)
  show ?thesis
    unfolding initialize_database_def get_connection_def c
    by (simp add: initialize_block_fresh commit_def close_def flush_def Let_def)
       (simp add: new_connection_def map_of_fs_write)
qed

lemma initialize_database_unopened:
  assumes "map_of fs (db_path self) = Some Dir
           \<or> (map_of fs (db_path self) = None \<and> \<not> is_dir fs (parent (db_path self)))"
  shows "initialize_database self fs
           = (Inl (OperationalError ''unable to open database file''), None, fs)"
  using assms
  by (auto simp: initialize_database_def get_connection_def connect_def)

lemma user_objects_initialized:
  "user_objects ''table'' initialized_db = [''conversations'', ''messages'', ''model_usage'']"
  "user_objects ''index'' initialized_db =
     [''idx_messages_conversation'', ''idx_conversations_session'',
      ''idx_messages_timestamp'', ''idx_model_usage_timestamp'']"
  by (simp_all add: user_objects_def initialized_db_def initialized_master_def starts_with_def)

lemma sample_paths:
  "DATA_DIR sample_root = [''IntelliChat'', ''data'']"
  "CONVERSATIONS_DIR sample_root = [''IntelliChat'', ''data'', ''conversations'']"
  "LOGS_DIR sample_root = [''IntelliChat'', ''data'', ''logs'']"
  "DB_PATH sample_root = [''IntelliChat'', ''data'', ''conversations'', ''conversations.db'']"
  by (simp_all add: DATA_DIR_def CONVERSATIONS_DIR_def LOGS_DIR_def DB_PATH_def sample_root_def)

lemma ensure_directories_fresh:
  "ensure_directories sample_root self fresh_fs = (None, dirs_fs)"
  by (simp add: ensure_directories_def mkdir_exist_ok_def fresh_fs_def dirs_fs_def
      sample_paths parent_def)
     (simp add: sample_root_def)

lemma initialize_database_dirs:
  "\<exists>c. initialize_database sample_manager dirs_fs = (Inr (), Some c, initialized_fs)"
proof -
  have c: "connect (db_path sample_manager) dirs_fs
      = Inr (new_connection (DB_PATH sample_root) True empty_db,
             dirs_fs @ [(DB_PATH sample_root, File (Db empty_db))])"
    by (simp add: connect_def sample_manager_def dirs_fs_def sample_paths parent_def is_dir_def)
       (simp add: sample_root_def)
  have w: "fs_write (DB_PATH sample_root) (File (Db initialized_db))
             (dirs_fs @ [(DB_PATH sample_root, File (Db empty_db))]) = initialized_fs"
    by (simp add: dirs_fs_def initialized_fs_def sample_paths) (simp add: sample_root_def)
  show ?thesis
    unfolding initialize_database_def get_connection_def c
    by (simp add: initialize_block_fresh commit_def close_def flush_def Let_def)
       (simp add: new_connection_def w)
qed

lemma DatabaseManager_init_fresh:
  "DatabaseManager_init sample_root None fresh_fs = (Inr sample_manager, initialized_fs)"
  using initialize_database_dirs
  by (auto simp: DatabaseManager_init_def Let_def ensure_directories_fresh
      sample_manager_def [symmetric])

lemma has_obj_cong: "sqlite_master d2 = sqlite_master d1 \<Longrightarrow> has_obj t n d2 = has_obj t n d1"
  by (simp add: has_obj_def)

lemma schema_complete_cong:
  "sqlite_master d2 = sqlite_master d1 \<Longrightarrow> schema_complete d2 = schema_complete d1"
  by (simp add: schema_complete_def has_obj_cong [of d2 d1])

lemma run_all_complete:
  assumes "schema_complete d"
  shows "run_all schema_statements (new_connection p True d)
           = (None, (new_connection p True d)\<lparr>calls := [Commit]\<rparr>)"
  using assms
  by (simp add: schema_complete_def schema_statements_def execute_schema_def stmt_guard_def
      create_table_if_not_exists_def create_index_if_not_exists_def
      create_trigger_if_not_exists_def new_connection_def commit_def)

lemma initialize_database_complete:
  assumes "map_of fs (db_path self) = Some (File (Db d))" and "schema_complete d"
  shows "\<exists>c. initialize_database self fs = (Inr (), Some c, fs)"
proof -
  have c: "connect (db_path self) fs = Inr (new_connection (db_path self) True d, fs)"
    using assms(1) by (simp add: connect_def)
  have b: "initialize_block (new_connection (db_path self) True d)
      = (Inr (), (new_connection (db_path self) True d)\<lparr>calls := [Commit]\<rparr>)"
    by (simp add: initialize_block_def run_all_complete [OF assms(2)])
  show ?thesis
    unfolding initialize_database_def get_connection_def c
    by (simp add: b commit_def close_def flush_def Let_def)
       (simp add: new_connection_def fs_write_same [OF assms(1)])
qed

lemma run_all_Cons_None:
  "run_all (s # ss) c = (None, c') \<Longrightarrow> \<exists>c1. s c = (None, c1) \<and> run_all ss c1 = (None, c')"
  by (auto split: prod.splits option.splits)

lemma create_table_has:
  "create_table_if_not_exists nm a u db = Inr d
   \<Longrightarrow> has_obj ''table'' nm d \<and> (\<forall>t n. has_obj t n db \<longrightarrow> has_obj t n d)"
  by (auto simp: create_table_if_not_exists_def has_obj_def split: if_splits)

lemma create_index_has:
  "create_index_if_not_exists nm tbl db = Inr d
   \<Longrightarrow> has_obj ''index'' nm d \<and> (\<forall>t n. has_obj t n db \<longrightarrow> has_obj t n d)"
  by (auto simp: create_index_if_not_exists_def has_obj_def split: if_splits)

lemma create_trigger_has:
  "create_trigger_if_not_exists nm tbl db = Inr d
   \<Longrightarrow> has_obj ''trigger'' nm d \<and> (\<forall>t n. has_obj t n db \<longrightarrow> has_obj t n d)"
  by (auto simp: create_trigger_if_not_exists_def has_obj_def split: if_splits)

lemma execute_schema_None:
  assumes "execute_schema stmt c = (None, c')"
  shows "\<exists>d. stmt (work c) = Inr d \<and> work c' = d \<and> is_db c' \<and> \<not> closed c'
           \<and> conn_path c' = conn_path c"
  using assms
  by (auto simp: execute_schema_def stmt_guard_def split: option.splits sum.splits if_splits)

lemma step_table:
  assumes "execute_schema (create_table_if_not_exists nm a u) c = (None, c')"
  shows "has_obj ''table'' nm (work c') \<and> (\<forall>t n. has_obj t n (work c) \<longrightarrow> has_obj t n (work c'))
           \<and> is_db c' \<and> \<not> closed c' \<and> conn_path c' = conn_path c"
  using execute_schema_None [OF assms] create_table_has by blast

lemma step_index:
  assumes "execute_schema (create_index_if_not_exists nm tbl) c = (None, c')"
  shows "has_obj ''index'' nm (work c') \<and> (\<forall>t n. has_obj t n (work c) \<longrightarrow> has_obj t n (work c'))
           \<and> is_db c' \<and> \<not> closed c' \<and> conn_path c' = conn_path c"
  using execute_schema_None [OF assms] create_index_has by blast

lemma step_trigger:
  assumes "execute_schema (create_trigger_if_not_exists nm tbl) c = (None, c')"
  shows "has_obj ''trigger'' nm (work c') \<and> (\<forall>t n. has_obj t n (work c) \<longrightarrow> has_obj t n (work c'))
           \<and> is_db c' \<and> \<not> closed c' \<and> conn_path c' = conn_path c"
  using execute_schema_None [OF assms] create_trigger_has by blast

lemma commit_None:
  "commit c = (None, c') \<Longrightarrow> work c' = work c \<and> disk c' = work c \<and> is_db c' = is_db c
     \<and> closed c' = closed c \<and> conn_path c' = conn_path c"
  by (auto simp: commit_def split: if_splits)

lemma run_all_schema_success:
  assumes "run_all schema_statements c = (None, c')"
  shows "schema_complete (work c') \<and> disk c' = work c' \<and> is_db c' \<and> \<not> closed c'
           \<and> conn_path c' = conn_path c"
proof -
  from assms [unfolded schema_statements_def]
  obtain c1 where 1: "execute_schema (create_table_if_not_exists ''conversations'' True True) c = (None, c1)"
    and r1: "run_all
      [execute_schema (create_table_if_not_exists ''messages'' True False),
      execute_schema (create_table_if_not_exists ''model_usage'' True False),
      execute_schema (create_index_if_not_exists ''idx_messages_conversation'' ''messages''),
      execute_schema (create_index_if_not_exists ''idx_conversations_session'' ''conversations''),
      execute_schema (create_index_if_not_exists ''idx_messages_timestamp'' ''messages''),
      execute_schema (create_index_if_not_exists ''idx_model_usage_timestamp'' ''model_usage''),
      execute_schema (create_trigger_if_not_exists ''update_conversation_timestamp'' ''messages''),
      commit] c1 = (None, c')"
    by (blast dest: run_all_Cons_None)
  from r1 obtain c2 where 2: "execute_schema (create_table_if_not_exists ''messages'' True False) c1 = (None, c2)"
    and r2: "run_all
      [execute_schema (create_table_if_not_exists ''model_usage'' True False),
      execute_schema (create_index_if_not_exists ''idx_messages_conversation'' ''messages''),
      execute_schema (create_index_if_not_exists ''idx_conversations_session'' ''conversations''),
      execute_schema (create_index_if_not_exists ''idx_messages_timestamp'' ''messages''),
      execute_schema (create_index_if_not_exists ''idx_model_usage_timestamp'' ''model_usage''),
      execute_schema (create_trigger_if_not_exists ''update_conversation_timestamp'' ''messages''),
      commit] c2 = (None, c')"
    by (blast dest: run_all_Cons_None)
  from r2 obtain c3 where 3: "execute_schema (create_table_if_not_exists ''model_usage'' True False) c2 = (None, c3)"
    and r3: "run_all
      [execute_schema (create_index_if_not_exists ''idx_messages_conversation'' ''messages''),
      execute_schema (create_index_if_not_exists ''idx_conversations_session'' ''conversations''),
      execute_schema (create_index_if_not_exists ''idx_messages_timestamp'' ''messages''),
      execute_schema (create_index_if_not_exists ''idx_model_usage_timestamp'' ''model_usage''),
      execute_schema (create_trigger_if_not_exists ''update_conversation_timestamp'' ''messages''),
      commit] c3 = (None, c')"
    by (blast dest: run_all_Cons_None)
  from r3 obtain c4 where 4: "execute_schema (create_index_if_not_exists ''idx_messages_conversation'' ''messages'') c3 = (None, c4)"
    and r4: "run_all
      [execute_schema (create_index_if_not_exists ''idx_conversations_session'' ''conversations''),
      execute_schema (create_index_if_not_exists ''idx_messages_timestamp'' ''messages''),
      execute_schema (create_index_if_not_exists ''idx_model_usage_timestamp'' ''model_usage''),
      execute_schema (create_trigger_if_not_exists ''update_conversation_timestamp'' ''messages''),
      commit] c4 = (None, c')"
    by (blast dest: run_all_Cons_None)
  from r4 obtain c5 where 5: "execute_schema (create_index_if_not_exists ''idx_conversations_session'' ''conversations'') c4 = (None, c5)"
    and r5: "run_all
      [execute_schema (create_index_if_not_exists ''idx_messages_timestamp'' ''messages''),
      execute_schema (create_index_if_not_exists ''idx_model_usage_timestamp'' ''model_usage''),
      execute_schema (create_trigger_if_not_exists ''update_conversation_timestamp'' ''messages''),
      commit] c5 = (None, c')"
    by (blast dest: run_all_Cons_None)
  from r5 obtain c6 where 6: "execute_schema (create_index_if_not_exists ''idx_messages_timestamp'' ''messages'') c5 = (None, c6)"
    and r6: "run_all
      [execute_schema (create_index_if_not_exists ''idx_model_usage_timestamp'' ''model_usage''),
      execute_schema (create_trigger_if_not_exists ''update_conversation_timestamp'' ''messages''),
      commit] c6 = (None, c')"
    by (blast dest: run_all_Cons_None)
  from r6 obtain c7 where 7: "execute_schema (create_index_if_not_exists ''idx_model_usage_timestamp'' ''model_usage'') c6 = (None, c7)"
    and r7: "run_all
      [execute_schema (create_trigger_if_not_exists ''update_conversation_timestamp'' ''messages''),
      commit] c7 = (None, c')"
    by (blast dest: run_all_Cons_None)
  from r7 obtain c8 where 8: "execute_schema (create_trigger_if_not_exists ''update_conversation_timestamp'' ''messages'') c7 = (None, c8)"
    and r8: "run_all [commit] c8 = (None, c')"
    by (blast dest: run_all_Cons_None)
  from r8 have 9: "commit c8 = (None, c')"
    by (auto split: prod.splits option.splits)
  note s1 = step_table [OF 1] and s2 = step_table [OF 2] and s3 = step_table [OF 3]
    and s4 = step_index [OF 4] and s5 = step_index [OF 5] and s6 = step_index [OF 6]
    and s7 = step_index [OF 7] and s8 = step_trigger [OF 8] and s9 = commit_None [OF 9]
  have "schema_complete (work c8)"
    unfolding schema_complete_def
    using s1 s2 s3 s4 s5 s6 s7 s8 by blast
  moreover have "conn_path c8 = conn_path c"
    using s1 s2 s3 s4 s5 s6 s7 s8 by simp
  ultimately show ?thesis using s8 s9 by simp
qed

lemma initialize_database_success:
  assumes "initialize_database self fs0 = (Inr (), c0, fs1)"
  shows "\<exists>d. db_at fs1 (db_path self) = Some d \<and> schema_complete d"
proof -
  from assms obtain conn fsx where c: "connect (db_path self) fs0 = Inr (conn, fsx)"
    by (auto simp: initialize_database_def get_connection_def split: sum.splits)
  have cp: "conn_path conn = db_path self"
    using c by (auto simp: connect_def new_connection_def
        split: option.splits node.splits file_content.splits if_splits)
  obtain r c1 where b: "initialize_block conn = (r, c1)"
    by (cases "initialize_block conn") auto
  have r: "r = Inr ()"
    using assms c b
    by (cases r) (auto simp: initialize_database_def get_connection_def Let_def
        split: prod.splits)
  then have ra: "run_all schema_statements conn = (None, c1)"
    using b by (auto simp: initialize_block_def split: prod.splits option.splits)
  note s = run_all_schema_success [OF ra]
  have "fs1 = fs_write (db_path self) (File (Db (work c1))) fsx"
    using assms c b r s cp
    by (simp add: initialize_database_def get_connection_def Let_def commit_def close_def
        flush_def)
  then show ?thesis
    using s by (simp add: db_at_def map_of_fs_write)
qed

lemma connect_db:
  "map_of fs p = Some (File (Db d)) \<Longrightarrow> connect p fs = Inr (new_connection p True d, fs)"
  by (simp add: connect_def)

lemma queries_initialized:
  "select_names ''table'' (new_connection p True initialized_db)
     = Inr [''conversations'', ''sqlite_sequence'', ''messages'', ''model_usage'']"
  "select_names ''index'' (new_connection p True initialized_db)
     = Inr [''sqlite_autoindex_conversations_1'', ''idx_messages_conversation'',
            ''idx_conversations_session'', ''idx_messages_timestamp'',
            ''idx_model_usage_timestamp'']"
  "count_rows ''conversations'' (new_connection p True initialized_db) = Inr 0"
  "count_rows ''messages'' (new_connection p True initialized_db) = Inr 0"
  "count_rows ''model_usage'' (new_connection p True initialized_db) = Inr 0"
  "pragma_integrity_check (new_connection p True initialized_db) = Inr ''ok''"
  by (simp_all add: select_names_def count_rows_def pragma_integrity_check_def stmt_guard_def
      new_connection_def initialized_db_def initialized_master_def empty_db_def has_obj_def
      table_count_def)

lemma check_database_initialized:
  assumes "map_of fs (DB_PATH project_root) = Some (File (Db initialized_db))"
  shows "check_database project_root sz fs =
     (Inr True,
      [HeaderLine ''Checking Database'',
       SuccessLine [S ''Database file exists: '', P (DB_PATH project_root)],
       Plain [S ''  Size: '', MiB (sz (File (Db initialized_db))), S '' MB ('',
              I (int (sz (File (Db initialized_db)))), S '' bytes)''],
       Plain [NL, S ''  Tables:''],
       SuccessLine [S ''  '', S ''conversations''], Plain [S ''    Rows: '', I 0],
       SuccessLine [S ''  '', S ''messages''], Plain [S ''    Rows: '', I 0],
       SuccessLine [S ''  '', S ''model_usage''], Plain [S ''    Rows: '', I 0],
       Plain [NL, S ''  Indexes: '', I 5],
       Plain [S ''    - '', S ''idx_messages_conversation''],
       Plain [S ''    - '', S ''idx_conversations_session''],
       Plain [S ''    - '', S ''idx_messages_timestamp''],
       Plain [S ''    - '', S ''idx_model_usage_timestamp''],
       SuccessLine [S ''Database structure is valid'']])"
  by (simp add: check_database_def assms connect_db [OF assms] check_database_try_def
      queries_initialized st_size_def Let_def print_header_def print_success_def
      print_error_def starts_with_def)

lemma check_database_integrity_initialized:
  assumes "map_of fs (DB_PATH project_root) = Some (File (Db initialized_db))"
  shows "check_database_integrity project_root fs =
     (Inr True,
      [HeaderLine ''Database Integrity Check'', SuccessLine [S ''Database integrity: OK'']])"
  by (simp add: check_database_integrity_def exists_def assms connect_db [OF assms]
      check_database_integrity_try_def queries_initialized print_header_def print_success_def)

lemma get_statistics_initialized:
  assumes "map_of fs (DB_PATH project_root) = Some (File (Db initialized_db))"
  shows "get_statistics project_root fs =
     (None,
      [HeaderLine ''Database Statistics'',
       Plain [S ''Total Conversations: '', I 0],
       Plain [S ''Total Messages: '', I 0],
       Plain [NL, S ''Messages by Role:''],
       Plain [NL, S ''Total Tokens Used: '', I 0],
       Plain [NL, S ''Model Usage:'']])"
  by (simp add: get_statistics_def exists_def assms connect_db [OF assms]
      get_statistics_try_def queries_initialized print_header_def Let_def)
     (simp add: new_connection_def initialized_db_def empty_db_def group_count_def
        order_by_count_desc_def List.map_filter_def)

lemma DatabaseManager_init_new:
  assumes "map_of fs (case db_path_arg of None \<Rightarrow> DB_PATH project_root | Some p \<Rightarrow> p) = None"
      and "DatabaseManager_init project_root db_path_arg fs = (Inr self, fs')"
  shows "db_path self = (case db_path_arg of None \<Rightarrow> DB_PATH project_root | Some p \<Rightarrow> p)"
    and "map_of fs' (db_path self) = Some (File (Db initialized_db))"
    and "is_dir fs' (DATA_DIR project_root)"
    and "is_dir fs' (CONVERSATIONS_DIR project_root)"
    and "is_dir fs' (LOGS_DIR project_root)"
proof -
  define p where "p = (case db_path_arg of None \<Rightarrow> DB_PATH project_root | Some p \<Rightarrow> p)"
  define s :: DatabaseManager where "s = \<lparr>db_path = p\<rparr>"
  from assms(2) obtain fs1 where
    e: "ensure_directories project_root s fs = (None, fs1)" and
    i: "fst (initialize_database s fs1) = Inr ()" "snd (snd (initialize_database s fs1)) = fs'" and
    self: "self = s"
    by (auto simp: DatabaseManager_init_def Let_def p_def s_def
        split: prod.splits option.splits sum.splits)
  have pth: "db_path s = p" by (simp add: s_def)
  note m1 = ensure_directories_ok [OF e]
  have "map_of fs1 p = None \<or> map_of fs1 p = Some Dir"
    using m1 assms(1) by (auto simp: p_def [symmetric])
  moreover have "\<not> (map_of fs1 p = Some Dir
       \<or> (map_of fs1 p = None \<and> \<not> is_dir fs1 (parent p)))"
  proof
    assume "map_of fs1 p = Some Dir \<or> (map_of fs1 p = None \<and> \<not> is_dir fs1 (parent p))"
    from initialize_database_unopened [of fs1 s, unfolded pth, OF this] i(1)
    show False by simp
  qed
  ultimately have n: "map_of fs1 (db_path s) = None" "is_dir fs1 (parent (db_path s))"
    by (auto simp: pth)
  from initialize_database_fresh [OF this] i(2)
  have m2: "map_of fs' = (map_of fs1)(db_path s \<mapsto> File (Db initialized_db))"
    by auto
  have d: "map_of fs1 (DATA_DIR project_root) = Some Dir"
      "map_of fs1 (CONVERSATIONS_DIR project_root) = Some Dir"
      "map_of fs1 (LOGS_DIR project_root) = Some Dir"
    by (simp_all add: m1)
  show "db_path self = (case db_path_arg of None \<Rightarrow> DB_PATH project_root | Some p \<Rightarrow> p)"
    by (simp add: self pth p_def)
  show "map_of fs' (db_path self) = Some (File (Db initialized_db))"
    by (simp add: self m2)
  show "is_dir fs' (DATA_DIR project_root)"
    using d(1) n(1) by (auto simp: is_dir_def m2)
  show "is_dir fs' (CONVERSATIONS_DIR project_root)"
    using d(2) n(1) by (auto simp: is_dir_def m2)
  show "is_dir fs' (LOGS_DIR project_root)"
    using d(3) n(1) by (auto simp: is_dir_def m2)
qed

lemma check_directories_all:
  assumes "is_dir fs (DATA_DIR project_root)" "is_dir fs (CONVERSATIONS_DIR project_root)"
      "is_dir fs (LOGS_DIR project_root)"
  shows "check_directories project_root fs =
     (True,
      [HeaderLine ''Checking Directories'',
       SuccessLine [S ''Data directory'', S '' exists: '', P (DATA_DIR project_root)],
       SuccessLine [S ''Conversations directory'', S '' exists: '', P (CONVERSATIONS_DIR project_root)],
       SuccessLine [S ''Logs directory'', S '' exists: '', P (LOGS_DIR project_root)]])"
  using assms
  by (simp add: check_directories_def exists_def is_dir_def print_header_def print_success_def)

lemma bytes_less_irrefl: "\<not> bytes_less s s"
  by (induction s) auto

lemma sql_ge_refl_Text: "sql_ge (Text s) (Text s) = Some True"
  by (simp add: sql_ge_def bytes_less_irrefl)

lemma initialized_has:
  assumes "sqlite_master db = initialized_master"
  shows "has_obj ''table'' ''messages'' db" "has_obj ''table'' ''conversations'' db"
    "has_obj ''trigger'' ''update_conversation_timestamp'' db"
  using assms by (simp_all add: has_obj_def initialized_master_def)

lemma filter_fresh_id: "i \<notin> set (map msg_id ms) \<Longrightarrow> filter (\<lambda>m. msg_id m \<noteq> i) ms = ms"
  by (induction ms) auto

lemma bad_role_insert:
  assumes "has_obj ''table'' ''messages'' db"
      and "v_role v = None \<or> (\<exists>r. v_role v = Some r \<and> r \<notin> {''user'', ''assistant'', ''system''})"
  shows "\<exists>e. insert_message oc fk False trg now v db
           = (if oc = OrIgnore then Skipped else Rejected (IntegrityError e))"
  using assms
  by (auto simp: insert_message_def violation_def split: option.splits)

lemma store_message_facts:
  "messages (store_message trg now new db)
     = filter (\<lambda>m. msg_id m \<noteq> msg_id new) (messages db) @ [new]"
  "conversations (store_message trg now new db)
     = (if trg \<and> has_obj ''trigger'' ''update_conversation_timestamp'' db
        then map (\<lambda>c. if conv_id c = conversation_id new then c\<lparr>updated_at := Text now\<rparr> else c)
               (conversations db)
        else conversations db)"
  "sqlite_master (store_message trg now new db) = sqlite_master db"
  by (simp_all add: store_message_def Let_def update_conversation_timestamp_def set_sequence_def
      has_obj_def)

lemma insert_message_Stored:
  assumes "insert_message oc fk icc trg now v db = Stored db'"
  shows "\<exists>new. db' = store_message trg now new db
           \<and> timestamp new = (case v_timestamp v of None \<Rightarrow> Text now | Some t \<Rightarrow> t)
           \<and> v_conversation_id v = Some (conversation_id new)
           \<and> v_role v = Some (role new) \<and> v_content v = Some (content new)"
  using assms unfolding insert_message_def Let_def violation_def
  by (auto split: option.splits if_splits)

lemma good_role_insert:
  assumes "has_obj ''table'' ''messages'' db"
      and "v_role v = Some r" "r \<in> {''user'', ''assistant'', ''system''}"
      and "v_conversation_id v = Some cid" "v_content v = Some ct"
      and "v_id v = None \<or> (\<exists>i. v_id v = Some i \<and> i \<notin> set (map msg_id (messages db)))"
      and "fk \<longrightarrow> cid \<in> set (map conv_id (conversations db))"
  shows "\<exists>d m. insert_message oc fk icc trg now v db = Stored d
           \<and> messages d = messages db @ [m]
           \<and> role m = r \<and> conversation_id m = cid \<and> content m = ct"
proof -
  define i where "i = (case v_id v of None \<Rightarrow> next_rowid ''messages'' (map msg_id (messages db)) db
                       | Some i \<Rightarrow> i)"
  have fresh: "i \<notin> set (map msg_id (messages db))"
    using assms(6) next_rowid_fresh [of "''messages''" "map msg_id (messages db)" db]
    by (auto simp: i_def)
  let ?new = "\<lparr>msg_id = i, conversation_id = cid, role = r, content = ct,
       timestamp = (case v_timestamp v of None \<Rightarrow> Text now | Some t \<Rightarrow> t),
       token_count = v_token_count v\<rparr>"
  have "insert_message oc fk icc trg now v db = Stored (store_message trg now ?new db)"
    using assms fresh
    by (auto simp: insert_message_def Let_def i_def [symmetric])
  moreover have "messages (store_message trg now ?new db) = messages db @ [?new]"
    using fresh by (simp add: store_message_facts filter_fresh_id)
  ultimately show ?thesis by auto
qed

lemma sample_db_facts:
  "sqlite_master sample_db = initialized_master"
  "messages sample_db = [sample_message]"
  "conversations sample_db = [sample_conversation]"
  by (simp_all add: sample_db_def)

lemma sample_insert:
  "insert_message oc False icc trg sample_now (sample_values\<lparr>v_timestamp := t\<rparr>) sample_db
     = Stored (store_message trg sample_now
         \<lparr>msg_id = 2, conversation_id = 1, role = ''assistant'', content = ''hi'',
          timestamp = (case t of None \<Rightarrow> Text sample_now | Some x \<Rightarrow> x),
          token_count = None\<rparr> sample_db)"
  by (simp add: insert_message_def Let_def has_obj_def sample_db_def sample_values_def
      sample_message_def initialized_master_def next_rowid_def sequence_of_def)

lemma sample_store:
  "store_message trg sample_now
     \<lparr>msg_id = 2, conversation_id = 1, role = ''assistant'', content = ''hi'',
      timestamp = t, token_count = None\<rparr> sample_db
   = sample_db\<lparr>
       conversations :=
         [if trg then sample_conversation\<lparr>updated_at := Text sample_now\<rparr>
          else sample_conversation],
       messages := [sample_message,
         \<lparr>msg_id = 2, conversation_id = 1, role = ''assistant'', content = ''hi'',
          timestamp = t, token_count = None\<rparr>],
       sqlite_sequence := [(''messages'', 2), (''conversations'', 1)]\<rparr>"
  by (simp add: store_message_def Let_def has_obj_def update_conversation_timestamp_def
      set_sequence_def sample_db_def sample_message_def sample_conversation_def
      initialized_master_def sequence_of_def)

lemma sample_insert_role:
  "insert_message oc False icc trg sample_now (sample_values\<lparr>v_role := Some r\<rparr>) sample_db
     = (if \<not> icc \<and> r \<notin> set [''user'', ''assistant'', ''system'']
        then violation oc ''CHECK constraint failed: role''
        else Stored (store_message trg sample_now
         \<lparr>msg_id = 2, conversation_id = 1, role = r, content = ''hi'',
          timestamp = Text sample_now, token_count = None\<rparr> sample_db))"
  by (simp add: insert_message_def Let_def has_obj_def sample_db_def sample_values_def
      sample_message_def initialized_master_def next_rowid_def sequence_of_def)

section \<open>Log file sizes\<close>

text \<open>
  C8, as the source has it. \<^verbatim>\<open>check_logs\<close> prints its header and then reports
  \<^verbatim>\<open>app.log\<close>, \<^verbatim>\<open>error.log\<close> and \<^verbatim>\<open>api.log\<close> in turn. For a log file that exists, it
  prints a warning and the hint to archive exactly when the file is larger than 100 MB.
  A file larger than 10 MB and of at most 100 MB gets one success line that shows its
  size in megabytes, and a file of at most 10 MB one success line that shows its size
  in bytes under the label KB; neither gets a warning.
\<close>

theorem check_logs_thresholds:
  "check_logs project_root sz fs =
     HeaderLine ''Checking Log Files''
     # check_log_file project_root sz fs ''app.log''
     @ check_log_file project_root sz fs ''error.log''
     @ check_log_file project_root sz fs ''api.log''
   \<and> (\<forall>n. map_of fs (LOGS_DIR project_root @ [log_file]) = Some n \<longrightarrow>
         (st_size sz n > 100 * (1024 * 1024) \<longrightarrow>
            check_log_file project_root sz fs log_file =
              [WarningLine [S log_file, S '' is large: '', MiB (st_size sz n), S '' MB''],
               Plain [S ''  Consider archiving: python scripts/archive_logs.py'']])
       \<and> (10 * (1024 * 1024) < st_size sz n \<and> st_size sz n \<le> 100 * (1024 * 1024) \<longrightarrow>
            check_log_file project_root sz fs log_file =
              [SuccessLine [S log_file, S '' exists ('', MiB (st_size sz n), S '' MB)'']])
       \<and> (st_size sz n \<le> 10 * (1024 * 1024) \<longrightarrow>
            check_log_file project_root sz fs log_file =
              [SuccessLine [S log_file, S '' exists ('', F0 (st_size sz n), S '' KB)'']]))"
  by (simp add: check_logs_def check_log_file_def Let_def print_header_def print_warning_def
      print_success_def)

theorem check_logs_thresholds_witness:
  "check_log_file sample_root (\<lambda>n. 0)
     [(LOGS_DIR sample_root @ [''error.log''], File (Raw (200 * (1024 * 1024))))] ''error.log''
   = [WarningLine [S ''error.log'', S '' is large: '', MiB (200 * (1024 * 1024)), S '' MB''],
      Plain [S ''  Consider archiving: python scripts/archive_logs.py'']]
   \<and> check_log_file sample_root (\<lambda>n. 0)
     [(LOGS_DIR sample_root @ [''app.log''], File (Raw (20 * (1024 * 1024))))] ''app.log''
   = [SuccessLine [S ''app.log'', S '' exists ('', MiB (20 * (1024 * 1024)), S '' MB)'']]
   \<and> check_log_file sample_root (\<lambda>n. 0)
     [(LOGS_DIR sample_root @ [''api.log''], File (Raw 4096))] ''api.log''
   = [SuccessLine [S ''api.log'', S '' exists ('', F0 4096, S '' KB)'']]"
proof -
  have 1: "check_log_file sample_root (\<lambda>n. 0)
     [(LOGS_DIR sample_root @ [''error.log''], File (Raw (200 * (1024 * 1024))))] ''error.log''
   = [WarningLine [S ''error.log'', S '' is large: '', MiB (200 * (1024 * 1024)), S '' MB''],
      Plain [S ''  Consider archiving: python scripts/archive_logs.py'']]"
    using check_logs_thresholds [of sample_root "\<lambda>n. 0"
        "[(LOGS_DIR sample_root @ [''error.log''], File (Raw (200 * (1024 * 1024))))]" "''error.log''"]
    by (simp add: st_size_def)
  have 2: "check_log_file sample_root (\<lambda>n. 0)
     [(LOGS_DIR sample_root @ [''app.log''], File (Raw (20 * (1024 * 1024))))] ''app.log''
   = [SuccessLine [S ''app.log'', S '' exists ('', MiB (20 * (1024 * 1024)), S '' MB)'']]"
    using check_logs_thresholds [of sample_root "\<lambda>n. 0"
        "[(LOGS_DIR sample_root @ [''app.log''], File (Raw (20 * (1024 * 1024))))]" "''app.log''"]
    by (simp add: st_size_def)
  have 3: "check_log_file sample_root (\<lambda>n. 0)
     [(LOGS_DIR sample_root @ [''api.log''], File (Raw 4096))] ''api.log''
   = [SuccessLine [S ''api.log'', S '' exists ('', F0 4096, S '' KB)'']]"
    using check_logs_thresholds [of sample_root "\<lambda>n. 0"
        "[(LOGS_DIR sample_root @ [''api.log''], File (Raw 4096))]" "''api.log''"]
    by (simp add: st_size_def)
  from 1 2 3 show ?thesis by blast
qed

text \<open>
  A log file of 20 MB, above the 10 MB mark: the report is a success line, and no
  warning is printed.
\<close>

theorem check_logs_20MB_no_warning:
  "check_log_file [''IntelliChat''] (\<lambda>n. 0)
     [([''IntelliChat'', ''data'', ''logs'', ''app.log''], File (Raw (20 * (1024 * 1024))))] ''app.log''
   = [SuccessLine [S ''app.log'', S '' exists ('', MiB (20 * (1024 * 1024)), S '' MB)'']]"
  by (simp add: check_log_file_def LOGS_DIR_def DATA_DIR_def st_size_def print_success_def)

section \<open>The role of a message\<close>

text \<open>
  C3, as the engine has it. Take an open connection to a database with the schema of
  \<^verbatim>\<open>_initialize_database\<close>, on which \<^verbatim>\<open>CHECK\<close> constraints are enforced (the setting
  of every new connection). An \<^verbatim>\<open>INSERT INTO messages\<close> whose role is \<^verbatim>\<open>NULL\<close> or a
  text other than \<^verbatim>\<open>user\<close>, \<^verbatim>\<open>assistant\<close> and \<^verbatim>\<open>system\<close> stores no row, under every
  conflict clause. It raises an \<^verbatim>\<open>IntegrityError\<close>, except under \<^verbatim>\<open>OR IGNORE\<close>, where
  the row is skipped and nothing is raised; under \<^verbatim>\<open>OR ROLLBACK\<close> the open transaction
  is rolled back as well. With one of the three roles the row is stored, whatever the
  role and the clause are, as soon as the other \<^verbatim>\<open>NOT NULL\<close> columns have values, the
  id is new or left to the engine, and the conversation exists where the connection
  enforces foreign keys.
\<close>

theorem messages_role_check:
  assumes "stmt_guard c = None"
      and "sqlite_master (work c) = initialized_master"
      and "\<not> ignore_check_constraints c"
  shows "(v_role v = None \<or> (\<exists>r. v_role v = Some r \<and> r \<notin> {''user'', ''assistant'', ''system''})
          \<longrightarrow> (\<exists>e. execute_insert oc now v c =
                 (if oc = OrIgnore then None else Some (IntegrityError e),
                  if oc = OrRollback then c\<lparr>work := disk c, in_transaction := False\<rparr>
                  else c\<lparr>in_transaction := True\<rparr>)))
       \<and> (\<forall>r cid ct. v_role v = Some r \<and> r \<in> {''user'', ''assistant'', ''system''}
            \<and> v_conversation_id v = Some cid \<and> v_content v = Some ct
            \<and> (v_id v = None \<or> (\<exists>i. v_id v = Some i \<and> i \<notin> set (map msg_id (messages (work c)))))
            \<and> (foreign_keys c \<longrightarrow> cid \<in> set (map conv_id (conversations (work c))))
          \<longrightarrow> (\<exists>c' m. execute_insert oc now v c = (None, c')
                       \<and> messages (work c') = messages (work c) @ [m]
                       \<and> role m = r \<and> conversation_id m = cid \<and> content m = ct))"
proof (intro conjI impI allI)
  note tbl = initialized_has(1) [OF assms(2)]
  assume bad: "v_role v = None \<or> (\<exists>r. v_role v = Some r \<and> r \<notin> {''user'', ''assistant'', ''system''})"
  from bad_role_insert [OF tbl bad, of oc "foreign_keys c" "triggers_enabled c" now]
  obtain e where e: "insert_message oc (foreign_keys c) False (triggers_enabled c) now v (work c)
           = (if oc = OrIgnore then Skipped else Rejected (IntegrityError e))"
    by blast
  show "\<exists>e. execute_insert oc now v c =
                 (if oc = OrIgnore then None else Some (IntegrityError e),
                  if oc = OrRollback then c\<lparr>work := disk c, in_transaction := False\<rparr>
                  else c\<lparr>in_transaction := True\<rparr>)"
    using assms(1,3) e by (intro exI [of _ e]) (simp add: execute_insert_def)
next
  note tbl = initialized_has(1) [OF assms(2)]
  fix r cid ct
  assume a: "v_role v = Some r \<and> r \<in> {''user'', ''assistant'', ''system''}
            \<and> v_conversation_id v = Some cid \<and> v_content v = Some ct
            \<and> (v_id v = None \<or> (\<exists>i. v_id v = Some i \<and> i \<notin> set (map msg_id (messages (work c)))))
            \<and> (foreign_keys c \<longrightarrow> cid \<in> set (map conv_id (conversations (work c))))"
  then have "\<exists>d m. insert_message oc (foreign_keys c) (ignore_check_constraints c)
                (triggers_enabled c) now v (work c) = Stored d
           \<and> messages d = messages (work c) @ [m]
           \<and> role m = r \<and> conversation_id m = cid \<and> content m = ct"
    by (intro good_role_insert [OF tbl]) auto
  then show "\<exists>c' m. execute_insert oc now v c = (None, c')
                       \<and> messages (work c') = messages (work c) @ [m]
                       \<and> role m = r \<and> conversation_id m = cid \<and> content m = ct"
    using assms(1) by (auto simp: execute_insert_def)
qed

theorem messages_role_check_witness:
  "(\<exists>e. execute_insert OrAbort sample_now (sample_values\<lparr>v_role := Some ''admin''\<rparr>)
            (new_connection (DB_PATH sample_root) True sample_db)
          = (Some (IntegrityError e),
             (new_connection (DB_PATH sample_root) True sample_db)\<lparr>in_transaction := True\<rparr>))
   \<and> execute_insert OrIgnore sample_now (sample_values\<lparr>v_role := None\<rparr>)
            (new_connection (DB_PATH sample_root) True sample_db)
          = (None, (new_connection (DB_PATH sample_root) True sample_db)\<lparr>in_transaction := True\<rparr>)
   \<and> (\<exists>c' m. execute_insert OrReplace sample_now sample_values
              (new_connection (DB_PATH sample_root) True sample_db) = (None, c')
            \<and> messages (work c') = [sample_message, m]
            \<and> role m = ''assistant'' \<and> conversation_id m = 1 \<and> content m = ''hi'')"
proof -
  let ?c = "new_connection (DB_PATH sample_root) True sample_db"
  have g: "stmt_guard ?c = None"
    by (simp add: stmt_guard_def new_connection_def)
  have w: "work ?c = sample_db" "disk ?c = sample_db" "foreign_keys ?c = False"
    by (simp_all add: new_connection_def)
  have m: "sqlite_master (work ?c) = initialized_master"
    by (simp add: w sample_db_facts)
  have i: "\<not> ignore_check_constraints ?c"
    by (simp add: new_connection_def)
  from messages_role_check [OF g m i, of "sample_values\<lparr>v_role := Some ''admin''\<rparr>" OrAbort sample_now]
  have 1: "\<exists>e. execute_insert OrAbort sample_now (sample_values\<lparr>v_role := Some ''admin''\<rparr>) ?c
          = (Some (IntegrityError e), ?c\<lparr>in_transaction := True\<rparr>)"
    by simp
  from messages_role_check [OF g m i, of "sample_values\<lparr>v_role := None\<rparr>" OrIgnore sample_now]
  have 2: "execute_insert OrIgnore sample_now (sample_values\<lparr>v_role := None\<rparr>) ?c
          = (None, ?c\<lparr>in_transaction := True\<rparr>)"
    by simp
  from messages_role_check [OF g m i, of sample_values OrReplace sample_now]
  have 3: "\<exists>c' m. execute_insert OrReplace sample_now sample_values ?c = (None, c')
            \<and> messages (work c') = [sample_message, m]
            \<and> role m = ''assistant'' \<and> conversation_id m = 1 \<and> content m = ''hi''"
    by (simp add: w sample_db_facts sample_values_def)
  from 1 2 3 show ?thesis by blast
qed

text \<open>
  \<^verbatim>\<open>INSERT OR IGNORE\<close> with the role \<^verbatim>\<open>admin\<close>: nothing is raised, and the connection
  sees the database it saw before. And after \<^verbatim>\<open>PRAGMA ignore_check_constraints = ON\<close>
  a plain \<^verbatim>\<open>INSERT\<close> with the role \<^verbatim>\<open>admin\<close> raises nothing and stores the row.
\<close>

theorem insert_or_ignore_raises_nothing:
  "execute_insert OrIgnore sample_now (sample_values\<lparr>v_role := Some ''admin''\<rparr>)
       (new_connection (DB_PATH sample_root) True sample_db)
     = (None, (new_connection (DB_PATH sample_root) True sample_db)\<lparr>in_transaction := True\<rparr>)
   \<and> fst (execute_insert OrAbort sample_now (sample_values\<lparr>v_role := Some ''admin''\<rparr>)
       ((new_connection (DB_PATH sample_root) True sample_db)\<lparr>ignore_check_constraints := True\<rparr>))
     = None
   \<and> map role (messages (work (snd
       (execute_insert OrAbort sample_now (sample_values\<lparr>v_role := Some ''admin''\<rparr>)
         ((new_connection (DB_PATH sample_root) True sample_db)
            \<lparr>ignore_check_constraints := True\<rparr>)))))
     = [''user'', ''admin'']"
  by (simp add: execute_insert_def stmt_guard_def new_connection_def sample_insert_role
      violation_def store_message_facts)
     (simp add: sample_db_def sample_message_def)

section \<open>The trigger on new messages\<close>

text \<open>
  C5, as the source has it. Take a database with the schema of
  \<^verbatim>\<open>_initialize_database\<close> and an \<^verbatim>\<open>INSERT INTO messages\<close> that stores its row, with
  triggers enabled (the setting of every new connection). The trigger sets
  \<^verbatim>\<open>updated_at\<close> of every conversation whose id is the message's \<^verbatim>\<open>conversation_id\<close>
  to the text of \<^verbatim>\<open>CURRENT_TIMESTAMP\<close>, not to the timestamp of the message. When the
  row takes the default timestamp, that is the same text, so \<^verbatim>\<open>updated_at >= timestamp\<close>
  holds, with equality.
\<close>

theorem trigger_updates_parent:
  assumes "sqlite_master db = initialized_master"
      and "insert_message oc fk ignore_check True now v db = Stored db'"
  shows "\<exists>m ms. messages db' = ms @ [m]
           \<and> v_conversation_id v = Some (conversation_id m)
           \<and> (\<forall>c \<in> set (conversations db').
                 conv_id c = conversation_id m \<longrightarrow> updated_at c = Text now)
           \<and> (v_timestamp v = None \<longrightarrow>
                timestamp m = Text now
                \<and> (\<forall>c \<in> set (conversations db').
                      conv_id c = conversation_id m
                      \<longrightarrow> sql_ge (updated_at c) (timestamp m) = Some True))"
proof -
  from insert_message_Stored [OF assms(2)]
  obtain m where m: "db' = store_message True now m db"
      "timestamp m = (case v_timestamp v of None \<Rightarrow> Text now | Some t \<Rightarrow> t)"
      "v_conversation_id v = Some (conversation_id m)"
    by blast
  note trg = initialized_has(3) [OF assms(1)]
  have 1: "messages db' = filter (\<lambda>x. msg_id x \<noteq> msg_id m) (messages db) @ [m]"
    by (simp add: m(1) store_message_facts)
  have 2: "\<forall>c \<in> set (conversations db').
             conv_id c = conversation_id m \<longrightarrow> updated_at c = Text now"
    by (auto simp: m(1) store_message_facts trg)
  have 3: "v_timestamp v = None \<longrightarrow>
                timestamp m = Text now
                \<and> (\<forall>c \<in> set (conversations db').
                      conv_id c = conversation_id m
                      \<longrightarrow> sql_ge (updated_at c) (timestamp m) = Some True)"
    using 2 m(2) by (auto simp: sql_ge_refl_Text)
  from 1 2 3 m(3) show ?thesis
    by - (rule exI [of _ m],
        rule exI [of _ "filter (\<lambda>x. msg_id x \<noteq> msg_id m) (messages db)"], blast)
qed

theorem trigger_updates_parent_witness:
  "\<exists>db'. insert_message OrAbort False False True sample_now sample_values sample_db = Stored db'
     \<and> conversations db' = [sample_conversation\<lparr>updated_at := Text sample_now\<rparr>]
     \<and> (\<exists>m ms. messages db' = ms @ [m] \<and> conversation_id m = 1
           \<and> timestamp m = Text sample_now
           \<and> (\<forall>c \<in> set (conversations db').
                 conv_id c = conversation_id m
                 \<longrightarrow> updated_at c = Text sample_now
                     \<and> sql_ge (updated_at c) (timestamp m) = Some True))"
proof -
  let ?d = "store_message True sample_now
         \<lparr>msg_id = 2, conversation_id = 1, role = ''assistant'', content = ''hi'',
          timestamp = Text sample_now, token_count = None\<rparr> sample_db"
  have ins: "insert_message OrAbort False False True sample_now sample_values sample_db
     = Stored ?d"
    using sample_insert [of OrAbort False True None] by (simp add: sample_values_def)
  have ts: "v_timestamp sample_values = None" "v_conversation_id sample_values = Some 1"
    by (simp_all add: sample_values_def)
  have cs: "conversations ?d = [sample_conversation\<lparr>updated_at := Text sample_now\<rparr>]"
    by (simp add: sample_store)
  from trigger_updates_parent [OF sample_db_facts(1) ins] ts
  have r: "\<exists>m ms. messages ?d = ms @ [m] \<and> conversation_id m = 1
           \<and> timestamp m = Text sample_now
           \<and> (\<forall>c \<in> set (conversations ?d).
                 conv_id c = conversation_id m
                 \<longrightarrow> updated_at c = Text sample_now
                     \<and> sql_ge (updated_at c) (timestamp m) = Some True)"
    by simp blast
  show ?thesis
    by (rule exI [of _ ?d], intro conjI, rule ins, rule cs, rule r)
qed

text \<open>
  Three insertions at \<^verbatim>\<open>2024-06-01 12:00:00\<close> into a database whose conversation 1 was
  last updated at 11:00:00. With the explicit timestamp \<^verbatim>\<open>2999-01-01 00:00:00\<close>, and
  with the explicit timestamp of the same second written with microseconds, the parent
  gets \<^verbatim>\<open>updated_at = 2024-06-01 12:00:00\<close>, and \<^verbatim>\<open>updated_at >= timestamp\<close> is false.
  With triggers disabled on the connection and the default timestamp, the parent keeps
  its \<^verbatim>\<open>updated_at\<close> of 11:00:00, which is less than the timestamp of the message.
\<close>

theorem explicit_timestamp_insert:
  "insert_message OrAbort False False True sample_now
       (sample_values\<lparr>v_timestamp := Some (Text ''2999-01-01 00:00:00'')\<rparr>) sample_db
     = Stored (sample_db\<lparr>
         conversations := [sample_conversation\<lparr>updated_at := Text sample_now\<rparr>],
         messages := [sample_message,
           \<lparr>msg_id = 2, conversation_id = 1, role = ''assistant'', content = ''hi'',
            timestamp = Text ''2999-01-01 00:00:00'', token_count = None\<rparr>],
         sqlite_sequence := [(''messages'', 2), (''conversations'', 1)]\<rparr>)
   \<and> sql_ge (Text sample_now) (Text ''2999-01-01 00:00:00'') = Some False
   \<and> insert_message OrAbort False False True sample_now
       (sample_values\<lparr>v_timestamp := Some (Text ''2024-06-01 12:00:00.498349'')\<rparr>) sample_db
     = Stored (sample_db\<lparr>
         conversations := [sample_conversation\<lparr>updated_at := Text sample_now\<rparr>],
         messages := [sample_message,
           \<lparr>msg_id = 2, conversation_id = 1, role = ''assistant'', content = ''hi'',
            timestamp = Text ''2024-06-01 12:00:00.498349'', token_count = None\<rparr>],
         sqlite_sequence := [(''messages'', 2), (''conversations'', 1)]\<rparr>)
   \<and> sql_ge (Text sample_now) (Text ''2024-06-01 12:00:00.498349'') = Some False
   \<and> insert_message OrAbort False False False sample_now sample_values sample_db
     = Stored (sample_db\<lparr>
         conversations := [sample_conversation],
         messages := [sample_message,
           \<lparr>msg_id = 2, conversation_id = 1, role = ''assistant'', content = ''hi'',
            timestamp = Text sample_now, token_count = None\<rparr>],
         sqlite_sequence := [(''messages'', 2), (''conversations'', 1)]\<rparr>)
   \<and> sql_ge (updated_at sample_conversation) (Text sample_now) = Some False"
  using sample_insert [of OrAbort False True "Some (Text ''2999-01-01 00:00:00'')"]
    sample_insert [of OrAbort False True "Some (Text ''2024-06-01 12:00:00.498349'')"]
    sample_insert [of OrAbort False False None]
  by (simp add: sample_store sample_values_def)
     (simp add: sql_ge_def sample_now_def sample_conversation_def)

section \<open>The scope of a connection\<close>




section \<open>Deleting a conversation\<close>

text \<open>
  C1, at a database with conversation 1 and one message of it. The block
  \<^verbatim>\<open>DELETE FROM conversations WHERE id = 1\<close> runs on a connection from
  \<^verbatim>\<open>get_connection\<close>, which never turns the \<^verbatim>\<open>foreign_keys\<close> pragma on. The scope
  ends normally, the conversation is gone from the file, and its message is still
  there: \<^verbatim>\<open>ON DELETE CASCADE\<close> was not applied.
\<close>

theorem cascade_not_enforced:
  "fst (get_connection sample_manager delete_block sample_fs) = Inr ()
   \<and> db_at (snd (snd (get_connection sample_manager delete_block sample_fs))) (DB_PATH sample_root)
       = Some (sample_db\<lparr>conversations := []\<rparr>)
   \<and> messages (sample_db\<lparr>conversations := []\<rparr>) = [sample_message]
   \<and> conversation_id sample_message = 1"
  by (simp add: get_connection_def sample_connect sample_delete_block
      commit_def close_def Let_def flush_def db_at_def map_of_fs_write)
     (simp add: new_connection_def sample_db_def sample_message_def)

section \<open>A new database\<close>

text \<open>
  C4. When no file is at the path of the database and the constructor of
  \<^verbatim>\<open>DatabaseManager\<close> returns, the file at that path holds the database that the
  schema statements make from an empty one. Its tables, leaving aside the engine's own
  \<^verbatim>\<open>sqlite_sequence\<close>, are exactly \<^verbatim>\<open>conversations\<close>, \<^verbatim>\<open>messages\<close> and
  \<^verbatim>\<open>model_usage\<close>, and its indexes, leaving aside the automatic index of the
  \<^verbatim>\<open>UNIQUE\<close> column, are exactly the four that the source names.
\<close>

theorem fresh_database_schema:
  assumes "map_of fs (case db_path_arg of None \<Rightarrow> DB_PATH project_root | Some p \<Rightarrow> p) = None"
      and "DatabaseManager_init project_root db_path_arg fs = (Inr self, fs')"
  shows "db_path self = (case db_path_arg of None \<Rightarrow> DB_PATH project_root | Some p \<Rightarrow> p)
       \<and> db_at fs' (db_path self) = Some initialized_db
       \<and> user_objects ''table'' initialized_db = [''conversations'', ''messages'', ''model_usage'']
       \<and> user_objects ''index'' initialized_db =
            [''idx_messages_conversation'', ''idx_conversations_session'',
             ''idx_messages_timestamp'', ''idx_model_usage_timestamp'']"
  using DatabaseManager_init_new(1,2) [OF assms]
  by (simp add: db_at_def user_objects_initialized)

theorem fresh_database_schema_witness:
  "db_path sample_manager = DB_PATH sample_root
   \<and> db_at initialized_fs (DB_PATH sample_root) = Some initialized_db
   \<and> user_objects ''table'' initialized_db = [''conversations'', ''messages'', ''model_usage'']
   \<and> user_objects ''index'' initialized_db =
        [''idx_messages_conversation'', ''idx_conversations_session'',
         ''idx_messages_timestamp'', ''idx_model_usage_timestamp'']"
proof -
  have n: "map_of fresh_fs (case None of None \<Rightarrow> DB_PATH sample_root | Some p \<Rightarrow> p) = None"
    by (simp add: fresh_fs_def sample_paths) (simp add: sample_root_def)
  from fresh_database_schema [OF n DatabaseManager_init_fresh]
  show ?thesis by (simp add: sample_manager_def)
qed

section \<open>The directories of the constructor\<close>

text \<open>
  C10. \<^verbatim>\<open>_ensure_directories\<close> does the same whatever the \<^verbatim>\<open>db_path\<close> of the manager
  is, and changes nothing outside the data directory, its \<^verbatim>\<open>conversations\<close>
  subdirectory and its \<^verbatim>\<open>logs\<close> subdirectory. So when a custom path is given whose
  parent directory does not exist and is none of these three, the constructor raises,
  and leaves the file system as the creation of the directories left it.
\<close>

theorem constructor_directories:
  "ensure_directories project_root self fs = ensure_directories project_root self' fs
   \<and> (\<forall>q. q \<notin> {DATA_DIR project_root, CONVERSATIONS_DIR project_root, LOGS_DIR project_root}
          \<longrightarrow> map_of (snd (ensure_directories project_root self fs)) q = map_of fs q)
   \<and> (map_of fs p = None \<and> map_of fs (parent p) = None
        \<and> parent p \<notin> {DATA_DIR project_root, CONVERSATIONS_DIR project_root, LOGS_DIR project_root}
      \<longrightarrow> (\<exists>e. DatabaseManager_init project_root (Some p) fs
                 = (Inl e, snd (ensure_directories project_root \<lparr>db_path = p\<rparr> fs))))"
proof (intro conjI allI impI)
  show "ensure_directories project_root self fs = ensure_directories project_root self' fs"
    by (simp add: ensure_directories_def)
next
  fix q
  assume "q \<notin> {DATA_DIR project_root, CONVERSATIONS_DIR project_root, LOGS_DIR project_root}"
  then show "map_of (snd (ensure_directories project_root self fs)) q = map_of fs q"
    using ensure_directories_other [of project_root self fs _ _ q]
    by (cases "ensure_directories project_root self fs") auto
next
  assume a: "map_of fs p = None \<and> map_of fs (parent p) = None
        \<and> parent p \<notin> {DATA_DIR project_root, CONVERSATIONS_DIR project_root, LOGS_DIR project_root}"
  let ?s = "\<lparr>db_path = p\<rparr>"
  obtain r fs1 where e: "ensure_directories project_root ?s fs = (r, fs1)"
    by (cases "ensure_directories project_root ?s fs") auto
  show "\<exists>e. DatabaseManager_init project_root (Some p) fs
                 = (Inl e, snd (ensure_directories project_root \<lparr>db_path = p\<rparr> fs))"
  proof (cases r)
    case (Some x)
    then show ?thesis using e by (simp add: DatabaseManager_init_def Let_def)
  next
    case None
    have pp: "map_of fs1 (parent p) = None"
      using ensure_directories_other [OF e, of "parent p"] a by auto
    have "map_of fs1 p = None \<or> map_of fs1 p = Some Dir"
      using ensure_directories_ok [OF e [unfolded None]] a by auto
    then have "map_of fs1 (db_path ?s) = Some Dir
           \<or> (map_of fs1 (db_path ?s) = None \<and> \<not> is_dir fs1 (parent (db_path ?s)))"
      using pp by (auto simp: is_dir_def)
    from initialize_database_unopened [OF this]
    show ?thesis using e None by (simp add: DatabaseManager_init_def Let_def)
  qed
qed

theorem constructor_directories_witness:
  "ensure_directories sample_root \<lparr>db_path = [''tmp'', ''chat'', ''c.db'']\<rparr> fresh_fs
     = ensure_directories sample_root sample_manager fresh_fs
   \<and> map_of (snd (ensure_directories sample_root sample_manager fresh_fs)) [''tmp'', ''chat'']
     = map_of fresh_fs [''tmp'', ''chat'']
   \<and> (\<exists>e. DatabaseManager_init sample_root (Some [''tmp'', ''chat'', ''c.db'']) fresh_fs
           = (Inl e, dirs_fs))"
proof -
  note t = constructor_directories [of sample_root "\<lparr>db_path = [''tmp'', ''chat'', ''c.db'']\<rparr>"
      fresh_fs sample_manager "[''tmp'', ''chat'', ''c.db'']"]
  have h: "[''tmp'', ''chat''] \<notin>
      {DATA_DIR sample_root, CONVERSATIONS_DIR sample_root, LOGS_DIR sample_root}"
    by (simp add: sample_paths)
  have m: "map_of fresh_fs [''tmp'', ''chat'', ''c.db''] = None"
      "map_of fresh_fs (parent [''tmp'', ''chat'', ''c.db'']) = None"
      "parent [''tmp'', ''chat'', ''c.db''] = [''tmp'', ''chat'']"
    by (simp_all add: fresh_fs_def sample_root_def parent_def)
  from t h m show ?thesis
    by (simp add: ensure_directories_fresh)
qed

section \<open>Initializing twice\<close>

text \<open>
  C6. Suppose \<^verbatim>\<open>_initialize_database\<close> has succeeded once and left a database at the
  manager's path. Run it again on a file system whose database at that path has the same
  \<^verbatim>\<open>sqlite_master\<close>, that is the same tables, indexes and triggers, and any rows: the
  run that followed at once, or a later one after rows were written. It succeeds, and
  the file system it leaves is the one it found, so the schema and every row are as
  they were.
\<close>

theorem initialize_database_idempotent:
  assumes "initialize_database self fs0 = (Inr (), c0, fs1)"
      and "db_at fs1 (db_path self) = Some d1"
      and "map_of fs2 (db_path self) = Some (File (Db d2))"
      and "sqlite_master d2 = sqlite_master d1"
  shows "\<exists>c. initialize_database self fs2 = (Inr (), Some c, fs2)"
proof -
  from initialize_database_success [OF assms(1)] assms(2)
  have "schema_complete d1" by auto
  then have "schema_complete d2"
    by (simp add: schema_complete_cong [OF assms(4)])
  with assms(3) show ?thesis by (rule initialize_database_complete)
qed

theorem initialize_database_idempotent_witness:
  "(\<exists>c. initialize_database sample_manager initialized_fs = (Inr (), Some c, initialized_fs))
   \<and> (\<exists>c. initialize_database sample_manager sample_fs = (Inr (), Some c, sample_fs))"
proof -
  from initialize_database_dirs obtain c0 where
    first: "initialize_database sample_manager dirs_fs = (Inr (), Some c0, initialized_fs)"
    by blast
  have d1: "db_at initialized_fs (db_path sample_manager) = Some initialized_db"
    by (simp add: db_at_def initialized_fs_def dirs_fs_def sample_manager_def sample_paths)
       (simp add: sample_root_def)
  have f1: "map_of initialized_fs (db_path sample_manager) = Some (File (Db initialized_db))"
    by (simp add: initialized_fs_def dirs_fs_def sample_manager_def sample_paths)
       (simp add: sample_root_def)
  have f2: "map_of sample_fs (db_path sample_manager) = Some (File (Db sample_db))"
    by (simp add: sample_fs_def sample_manager_def sample_paths)
       (simp add: sample_root_def)
  have m: "sqlite_master sample_db = sqlite_master initialized_db"
    by (simp add: sample_db_def initialized_db_def)
  from initialize_database_idempotent [OF first d1 f1 refl]
       initialize_database_idempotent [OF first d1 f2 m]
  show ?thesis by blast
qed

section \<open>The exit code of the diagnostic script\<close>

text \<open>
  C7. When no file is at the path of the database, \<^verbatim>\<open>main\<close> returns 1. The report says
  that the database file was not found, and every later check still runs: the integrity
  check and the statistics each say that the database does not exist, the log files are
  checked, the maintenance suggestions are printed, and the summary is the one for
  failed checks.
\<close>

theorem missing_database_exit_code:
  assumes "\<not> exists fs (DB_PATH project_root)"
  shows "main project_root sz now fs =
     (Inr 1,
      banner now @ snd (check_directories project_root fs)
      @ [HeaderLine ''Checking Database'',
         ErrorLine [S ''Database file not found: '', P (DB_PATH project_root)],
         WarningLine [S ''Run: python scripts/initialize_data.py''],
         HeaderLine ''Database Integrity Check'',
         WarningLine [S ''Database doesn't exist, skipping integrity check'']]
      @ check_logs project_root sz fs
      @ [HeaderLine ''Database Statistics'', WarningLine [S ''Database doesn't exist'']]
      @ suggest_maintenance project_root sz fs
      @ snd (summary False))"
proof -
  from assms have n: "map_of fs (DB_PATH project_root) = None"
    by (simp add: exists_def)
  have 1: "check_database project_root sz fs =
      (Inr False, [HeaderLine ''Checking Database'',
         ErrorLine [S ''Database file not found: '', P (DB_PATH project_root)],
         WarningLine [S ''Run: python scripts/initialize_data.py'']])"
    by (simp add: check_database_def n print_header_def print_error_def print_warning_def)
  have 2: "check_database_integrity project_root fs =
      (Inr False, [HeaderLine ''Database Integrity Check'',
         WarningLine [S ''Database doesn't exist, skipping integrity check'']])"
    by (simp add: check_database_integrity_def assms print_header_def print_warning_def)
  have 3: "get_statistics project_root fs =
      (None, [HeaderLine ''Database Statistics'', WarningLine [S ''Database doesn't exist'']])"
    by (simp add: get_statistics_def assms print_header_def print_warning_def)
  have 4: "fst (summary False) = 1"
    by (simp add: summary_def)
  show ?thesis
    by (simp add: main_def 1 2 3 4 Let_def case_prod_beta)
qed

theorem missing_database_exit_code_witness:
  "fst (main sample_root (\<lambda>n. 0) sample_now dirs_fs) = Inr 1
   \<and> ErrorLine [S ''Database file not found: '', P (DB_PATH sample_root)]
       \<in> set (snd (main sample_root (\<lambda>n. 0) sample_now dirs_fs))"
proof -
  have h: "\<not> exists dirs_fs (DB_PATH sample_root)"
    by (simp add: exists_def dirs_fs_def sample_paths) (simp add: sample_root_def)
  from missing_database_exit_code [OF h, of "\<lambda>n. 0" sample_now]
  show ?thesis by simp
qed

text \<open>
  C9. Let the constructor of \<^verbatim>\<open>DatabaseManager\<close> return for the path that the script
  reads, where no file was before. Then \<^verbatim>\<open>main\<close> returns 0: the three directories
  exist, \<^verbatim>\<open>check_database\<close> reports each of the three tables present with 0 rows, and
  the integrity check reports OK.
\<close>

theorem fresh_database_exit_code:
  assumes "map_of fs (DB_PATH project_root) = None"
      and "DatabaseManager_init project_root db_path_arg fs = (Inr self, fs')"
      and "db_path self = DB_PATH project_root"
  shows "main project_root sz now fs' =
     (Inr 0,
      banner now @ snd (check_directories project_root fs')
      @ snd (check_database project_root sz fs')
      @ snd (check_database_integrity project_root fs')
      @ check_logs project_root sz fs'
      @ snd (get_statistics project_root fs')
      @ suggest_maintenance project_root sz fs'
      @ snd (summary True))
   \<and> fst (check_directories project_root fs')
   \<and> check_database project_root sz fs' =
     (Inr True,
      [HeaderLine ''Checking Database'',
       SuccessLine [S ''Database file exists: '', P (DB_PATH project_root)],
       Plain [S ''  Size: '', MiB (sz (File (Db initialized_db))), S '' MB ('',
              I (int (sz (File (Db initialized_db)))), S '' bytes)''],
       Plain [NL, S ''  Tables:''],
       SuccessLine [S ''  '', S ''conversations''], Plain [S ''    Rows: '', I 0],
       SuccessLine [S ''  '', S ''messages''], Plain [S ''    Rows: '', I 0],
       SuccessLine [S ''  '', S ''model_usage''], Plain [S ''    Rows: '', I 0],
       Plain [NL, S ''  Indexes: '', I 5],
       Plain [S ''    - '', S ''idx_messages_conversation''],
       Plain [S ''    - '', S ''idx_conversations_session''],
       Plain [S ''    - '', S ''idx_messages_timestamp''],
       Plain [S ''    - '', S ''idx_model_usage_timestamp''],
       SuccessLine [S ''Database structure is valid'']])
   \<and> check_database_integrity project_root fs' =
     (Inr True,
      [HeaderLine ''Database Integrity Check'', SuccessLine [S ''Database integrity: OK'']])"
proof -
  have a: "map_of fs (case db_path_arg of None \<Rightarrow> DB_PATH project_root | Some p \<Rightarrow> p) = None"
    using DatabaseManager_init_def assms
    by (cases db_path_arg)
       (auto simp: DatabaseManager_init_def Let_def split: prod.splits option.splits sum.splits)
  note r = DatabaseManager_init_new [OF a assms(2)]
  have f: "map_of fs' (DB_PATH project_root) = Some (File (Db initialized_db))"
    using r(2) assms(3) by simp
  note cd = check_directories_all [OF r(3) r(4) r(5)]
  note db = check_database_initialized [OF f, of sz]
  note ic = check_database_integrity_initialized [OF f]
  note gs = get_statistics_initialized [OF f]
  have s: "fst (summary True) = 0" by (simp add: summary_def)
  have "main project_root sz now fs' =
     (Inr 0,
      banner now @ snd (check_directories project_root fs')
      @ snd (check_database project_root sz fs')
      @ snd (check_database_integrity project_root fs')
      @ check_logs project_root sz fs'
      @ snd (get_statistics project_root fs')
      @ suggest_maintenance project_root sz fs'
      @ snd (summary True))"
    by (simp add: main_def cd db ic gs s Let_def case_prod_beta)
  then show ?thesis
    by (simp add: cd db ic)
qed

theorem fresh_database_exit_code_witness:
  "fst (main sample_root (\<lambda>n. 0) sample_now initialized_fs) = Inr 0
   \<and> fst (check_directories sample_root initialized_fs)
   \<and> fst (check_database sample_root (\<lambda>n. 0) initialized_fs) = Inr True
   \<and> fst (check_database_integrity sample_root initialized_fs) = Inr True"
proof -
  have n: "map_of fresh_fs (DB_PATH sample_root) = None"
    by (simp add: fresh_fs_def sample_paths) (simp add: sample_root_def)
  have p: "db_path sample_manager = DB_PATH sample_root"
    by (simp add: sample_manager_def)
  from fresh_database_exit_code [OF n DatabaseManager_init_fresh p, of "\<lambda>n. 0" sample_now]
  show ?thesis by simp
qed

end
